theory Spec2Isabelle
  imports Complex_Main "HOL-Library.Sublist"
begin

section \<open>JavaScript strings\<close>

text \<open>
  A JavaScript string is a sequence of UTF-16 code units. The model keeps the code units as
  natural numbers; \<open>utf16\<close> embeds an ASCII literal of the source.
\<close>

type_synonym jsstring = "nat list"

definition utf16 :: "string \<Rightarrow> jsstring" where
  "utf16 s = map of_char s"

text \<open>
  The code units \<open>String.prototype.trim\<close> strips: ECMAScript's WhiteSpace (TAB, VT, FF, SP,
  NBSP, ZWNBSP and the category Zs) and LineTerminator (LF, CR, LS, PS).
\<close>

definition isWhiteSpace :: "nat \<Rightarrow> bool" where
  "isWhiteSpace c = List.member
     [9, 10, 11, 12, 13, 32, 160, 5760,
      8192, 8193, 8194, 8195, 8196, 8197, 8198, 8199, 8200, 8201, 8202,
      8232, 8233, 8239, 8287, 12288, 65279] c"

definition trim :: "jsstring \<Rightarrow> jsstring" where
  "trim s = rev (dropWhile isWhiteSpace (rev (dropWhile isWhiteSpace s)))"

definition startsWith :: "jsstring \<Rightarrow> jsstring \<Rightarrow> bool" where
  "startsWith s searchString = prefix searchString s"

fun includes_str :: "jsstring \<Rightarrow> jsstring \<Rightarrow> bool" where
  "includes_str [] searchString = (searchString = [])"
| "includes_str (c # s) searchString =
     (prefix searchString (c # s) \<or> includes_str s searchString)"

text \<open>
  Truthiness of a string, and of a \<open>string | null | undefined\<close>: the empty string, \<open>null\<close>
  and \<open>undefined\<close> are falsy.
\<close>

definition truthy :: "jsstring \<Rightarrow> bool" where
  "truthy s = (s \<noteq> [])"

definition truthy_opt :: "jsstring option \<Rightarrow> bool" where
  "truthy_opt v = (case v of None \<Rightarrow> False | Some s \<Rightarrow> truthy s)"

section \<open>types/chat.ts\<close>

datatype role = user | assistant | system

record Message =
  role :: role
  content :: jsstring
  image :: "jsstring option"
  agent :: "jsstring option"
  resultImage :: "jsstring option"

record ChatResponse =
  status :: jsstring
  response :: jsstring
  agent :: jsstring
  result_image :: "jsstring option"

record ValidationResponse =
  status :: jsstring
  message :: jsstring
  response :: jsstring

record SpeechRequest =
  text' :: jsstring
  voice_id :: "jsstring option"
  language :: "jsstring option"

section \<open>lib/api.ts\<close>

subsection \<open>The fetch interface\<close>

record Blob =
  bytes :: "nat list"
  mime :: jsstring

record File =
  bits :: Blob
  name :: jsstring

datatype json = JString jsstring | JArray "json list" | JObject "(jsstring \<times> json) list"

datatype FormValue = StringValue jsstring | FileValue File

text \<open>
  A request body is either the text \<open>JSON.stringify\<close> makes of a value (kept as the value),
  or a \<open>FormData\<close>: its entries in the order they were appended.
\<close>

datatype BodyInit = JSON_stringify json | FormData "(jsstring \<times> FormValue) list"

record RequestInit =
  method' :: "jsstring option"
  headers :: "(jsstring \<times> jsstring) list"
  body :: "BodyInit option"
  credentials :: "jsstring option"

text \<open>A call \<open>fetch(url, init)\<close>; \<open>fetch(url)\<close> has no init.\<close>

type_synonym fetch_call = "jsstring \<times> RequestInit option"

text \<open>
  \<open>Error m\<close> is \<open>new Error(m)\<close> thrown by the code; \<open>Rejected\<close> is a rejection by the
  platform: \<open>fetch\<close> failing to reach the server, \<open>json()\<close> or \<open>blob()\<close> failing to read
  the body.
\<close>

datatype error = Error jsstring | Rejected

text \<open>
  A response: the \<open>ok\<close> flag and what reading its body (\<open>json()\<close>, \<open>blob()\<close>) resolves
  to. The code casts \<open>response.json()\<close> to the declared interface without a check; the model
  gives the body the declared type.
\<close>

record 'a Response =
  ok :: bool
  payload :: "error + 'a"

type_synonym 'a fetched = "error + 'a Response"

text \<open>
  The environment of the client: the build-time variable \<open>NEXT_PUBLIC_API_URL\<close> and the
  answers of \<open>fetch\<close>, one oracle for each type a caller reads the body at.
\<close>

record world =
  NEXT_PUBLIC_API_URL :: "jsstring option"
  fetch_chat :: "fetch_call \<Rightarrow> ChatResponse fetched"
  fetch_validation :: "fetch_call \<Rightarrow> ValidationResponse fetched"
  fetch_blob :: "fetch_call \<Rightarrow> Blob fetched"

definition API_BASE_URL :: "world \<Rightarrow> jsstring" where
  "API_BASE_URL w =
     (case NEXT_PUBLIC_API_URL w of
        None \<Rightarrow> utf16 ''http://localhost:8000''
      | Some u \<Rightarrow> if truthy u then u else utf16 ''http://localhost:8000'')"

subsection \<open>The calls\<close>

text \<open>
  Every function returns its result (\<open>Inl\<close>: the promise rejects) and the fetch calls it
  made. A parameter or local whose name is also a field of an interface is abbreviated
  (\<open>msg\<close>, \<open>file\<close>, \<open>txt\<close>, \<open>res\<close>); the fields \<open>text\<close> and \<open>method\<close> carry a
  prime, their names being reserved. \<open>transcribeAudio\<close> is left out: no handler modelled
  here calls it.
\<close>

definition sendChatMessage :: "world \<Rightarrow> jsstring \<Rightarrow> (error + ChatResponse) \<times> fetch_call list" where
  "sendChatMessage w msg =
     (let call = (API_BASE_URL w @ utf16 ''/api/chat'',
                  Some \<lparr>method' = Some (utf16 ''POST''),
                        headers = [(utf16 ''Content-Type'', utf16 ''application/json'')],
                        body = Some (JSON_stringify (JObject
                                 [(utf16 ''query'', JString msg),
                                  (utf16 ''conversation_history'', JArray [])])),
                        credentials = Some (utf16 ''include'')\<rparr>)
      in (case fetch_chat w call of
            Inl e \<Rightarrow> (Inl e, [call])
          | Inr res \<Rightarrow>
              if \<not> ok res then (Inl (Error (utf16 ''Failed to send message'')), [call])
              else (payload res, [call])))"

definition uploadImage :: "world \<Rightarrow> File \<Rightarrow> jsstring \<Rightarrow> (error + ChatResponse) \<times> fetch_call list" where
  "uploadImage w file txt =
     (let formData = [(utf16 ''image'', FileValue file), (utf16 ''text'', StringValue txt)];
          call = (API_BASE_URL w @ utf16 ''/api/upload'',
                  Some \<lparr>method' = Some (utf16 ''POST''),
                        headers = [],
                        body = Some (FormData formData),
                        credentials = Some (utf16 ''include'')\<rparr>)
      in (case fetch_chat w call of
            Inl e \<Rightarrow> (Inl e, [call])
          | Inr res \<Rightarrow>
              if \<not> ok res then (Inl (Error (utf16 ''Failed to upload image'')), [call])
              else (case payload res of
                      Inl e \<Rightarrow> (Inl e, [call])
                    | Inr data \<Rightarrow>
                        (case result_image data of
                           None \<Rightarrow> (Inr data, [call])
                         | Some img \<Rightarrow>
                             if truthy img \<and> \<not> startsWith img (utf16 ''http'')
                             then (Inr (data\<lparr>result_image := Some (API_BASE_URL w @ img)\<rparr>),
                                   [call])
                             else (Inr data, [call])))))"

definition sendValidation ::
  "world \<Rightarrow> jsstring \<Rightarrow> jsstring \<Rightarrow> (error + ValidationResponse) \<times> fetch_call list" where
  "sendValidation w validation comments =
     (let formData = [(utf16 ''validation_result'', StringValue validation),
                      (utf16 ''comments'', StringValue comments)];
          call = (API_BASE_URL w @ utf16 ''/api/validate'',
                  Some \<lparr>method' = Some (utf16 ''POST''),
                        headers = [],
                        body = Some (FormData formData),
                        credentials = Some (utf16 ''include'')\<rparr>)
      in (case fetch_validation w call of
            Inl e \<Rightarrow> (Inl e, [call])
          | Inr res \<Rightarrow>
              if \<not> ok res then (Inl (Error (utf16 ''Failed to send validation'')), [call])
              else (payload res, [call])))"

text \<open>
  \<open>JSON.stringify(request)\<close> of a \<open>SpeechRequest\<close>: a property that is \<open>undefined\<close> is left
  out. The properties are listed in the order of the interface.
\<close>

definition SpeechRequest_json :: "SpeechRequest \<Rightarrow> json" where
  "SpeechRequest_json request = JObject
     ([(utf16 ''text'', JString (text' request))]
      @ (case voice_id request of None \<Rightarrow> [] | Some v \<Rightarrow> [(utf16 ''voice_id'', JString v)])
      @ (case language request of None \<Rightarrow> [] | Some l \<Rightarrow> [(utf16 ''language'', JString l)]))"

definition generateSpeech :: "world \<Rightarrow> SpeechRequest \<Rightarrow> (error + Blob) \<times> fetch_call list" where
  "generateSpeech w request =
     (let call = (API_BASE_URL w @ utf16 ''/api/generate-speech'',
                  Some \<lparr>method' = Some (utf16 ''POST''),
                        headers = [(utf16 ''Content-Type'', utf16 ''application/json'')],
                        body = Some (JSON_stringify (SpeechRequest_json request)),
                        credentials = None\<rparr>)
      in (case fetch_blob w call of
            Inl e \<Rightarrow> (Inl e, [call])
          | Inr res \<Rightarrow>
              if \<not> ok res then (Inl (Error (utf16 ''Failed to generate speech'')), [call])
              else (payload res, [call])))"

section \<open>components/chat/Chat.tsx\<close>

subsection \<open>The component's state\<close>

record Chat =
  messages :: "Message list"
  input :: jsstring
  isRecording :: bool
  isProcessing :: bool
  selectedImage :: "jsstring option"

definition welcome_content :: jsstring where
  "welcome_content =
     utf16 ''Ch'' @ [224] @ utf16 ''o b'' @ [7841] @ utf16 ''n, t'' @ [244] @ utf16 ''i l''
      @ [224] @ utf16 '' h'' @ [7879] @ utf16 '' th'' @ [7889] @ utf16 ''ng Medicagent. T'' @ [244]
      @ utf16 ''i c'' @ [243] @ utf16 '' chuy'' @ [234] @ utf16 ''n m'' @ [244]
      @ utf16 ''n trong 3 l'' @ [297] @ utf16 ''nh v'' @ [7921] @ utf16 ''c ch'' @ [237]
      @ utf16 ''nh: Kh'' @ [7889] @ utf16 ''i u n'' @ [227] @ utf16 ''o, X-quang ng'' @ [7921]
      @ utf16 ''c, v'' @ [224] @ utf16 '' ph'' @ [226] @ utf16 ''n v'' @ [249] @ utf16 ''ng t''
      @ [7893] @ utf16 ''n th'' @ [432, 417] @ utf16 ''ng da. Tuy nhi'' @ [234] @ utf16 ''n, t''
      @ [244] @ utf16 ''i ch'' @ [7881] @ utf16 '' '' @ [273, 243] @ utf16 ''ng vai tr'' @ [242]
      @ utf16 '' h'' @ [7895] @ utf16 '' tr'' @ [7907] @ utf16 '' v'' @ [224] @ utf16 '' kh''
      @ [244] @ utf16 ''ng th'' @ [7875] @ utf16 '' thay th'' @ [7871] @ utf16 '' ''
      @ [273, 432, 7907] @ utf16 ''c c'' @ [225] @ utf16 ''c chuy'' @ [234] @ utf16 ''n gia y t''
      @ [7871] @ utf16 ''. N'' @ [7871] @ utf16 ''u c'' @ [243] @ utf16 '' c'' @ [226]
      @ utf16 ''u h'' @ [7887] @ utf16 ''i ho'' @ [7863] @ utf16 ''c c'' @ [7847] @ utf16 ''n ch''
      @ [7849] @ utf16 ''n '' @ [273] @ utf16 ''o'' @ [225] @ utf16 ''n, h'' @ [227] @ utf16 ''y g''
      @ [7917] @ utf16 ''i th'' @ [244] @ utf16 ''ng tin nh'' @ [233] @ utf16 '', t'' @ [244]
      @ utf16 ''i s'' @ [7869] @ utf16 '' gi'' @ [250] @ utf16 ''p b'' @ [7841] @ utf16 ''n t''
      @ [236] @ utf16 ''m ki'' @ [7871] @ utf16 ''m th'' @ [244] @ utf16 ''ng tin ch'' @ [237]
      @ utf16 ''nh x'' @ [225] @ utf16 ''c nh'' @ [7845] @ utf16 ''t!''"

definition cleared_content :: jsstring where
  "cleared_content =
     utf16 ''Xin ch'' @ [224] @ utf16 ''o, h'' @ [227] @ utf16 ''y ti'' @ [7871] @ utf16 ''p t''
      @ [7909] @ utf16 ''c v'' @ [7899] @ utf16 ''i Medicagent nh'' @ [233] @ utf16 ''!''"

text \<open>The state of the first render: the arguments of the five \<open>useState\<close> calls.\<close>

definition Chat_initial :: Chat where
  "Chat_initial =
     \<lparr>messages = [\<lparr>role = assistant, content = welcome_content, image = None,
                    agent = None, resultImage = None\<rparr>],
      input = [], isRecording = False, isProcessing = False, selectedImage = None\<rparr>"

subsection \<open>handleSendMessage\<close>

text \<open>
  An async handler runs in pieces: up to its first \<open>await\<close> at once, the rest when the
  awaited calls have settled. \<open>handleSendMessage_returns\<close> is the guard of the first line,
  \<open>handleSendMessage_begin\<close> the state updates before the \<open>try\<close>,
  \<open>handleSendMessage_request\<close> the awaited calls of the \<open>try\<close> block (they read the
  \<open>input\<close> and \<open>selectedImage\<close> of the render the handler was made in),
  \<open>handleSendMessage_settle\<close> the updates after them: the reply or, from the \<open>catch\<close>, the
  error note, and the \<open>finally\<close>.
\<close>

definition handleSendMessage_returns :: "Chat \<Rightarrow> bool" where
  "handleSendMessage_returns st =
     ((\<not> truthy (trim (input st)) \<and> \<not> truthy_opt (selectedImage st)) \<or> isProcessing st)"

definition newMessage :: "Chat \<Rightarrow> Message" where
  "newMessage st =
     \<lparr>role = user, content = trim (input st),
      image = (if truthy_opt (selectedImage st) then selectedImage st else None),
      agent = None, resultImage = None\<rparr>"

definition handleSendMessage_begin :: "Chat \<Rightarrow> Chat" where
  "handleSendMessage_begin st =
     st\<lparr>messages := messages st @ [newMessage st], input := [], selectedImage := None,
        isProcessing := True\<rparr>"

definition handleSendMessage_request ::
  "world \<Rightarrow> jsstring \<Rightarrow> jsstring option \<Rightarrow> (error + ChatResponse) \<times> fetch_call list" where
  "handleSendMessage_request w inp sel =
     (if truthy_opt sel then
        (case fetch_blob w (the sel, None) of
           Inl e \<Rightarrow> (Inl e, [(the sel, None)])
         | Inr r \<Rightarrow>
             (case payload r of
                Inl e \<Rightarrow> (Inl e, [(the sel, None)])
              | Inr imageFile \<Rightarrow>
                  (let (res, calls) =
                         uploadImage w \<lparr>bits = imageFile, name = utf16 ''image.jpg''\<rparr> (trim inp)
                   in (res, (the sel, None) # calls))))
      else sendChatMessage w (trim inp))"

definition handleSendMessage_settle :: "error + ChatResponse \<Rightarrow> Chat \<Rightarrow> Chat" where
  "handleSendMessage_settle outcome st =
     (case outcome of
        Inr res \<Rightarrow>
          st\<lparr>messages := messages st @
                [\<lparr>role = assistant, content = ChatResponse.response res, image = None,
                  agent = Some (ChatResponse.agent res), resultImage = result_image res\<rparr>],
             isProcessing := False\<rparr>
      | Inl e \<Rightarrow>
          st\<lparr>messages := messages st @
                [\<lparr>role = system,
                  content = utf16 ''Sorry, there was an error processing your request. Please try again.'',
                  image = None, agent = None, resultImage = None\<rparr>],
             isProcessing := False\<rparr>)"

text \<open>One whole call, nothing else happening meanwhile: the new state and the fetch calls made.\<close>

definition handleSendMessage :: "world \<Rightarrow> Chat \<Rightarrow> Chat \<times> fetch_call list" where
  "handleSendMessage w st =
     (if handleSendMessage_returns st then (st, [])
      else (let (outcome, calls) = handleSendMessage_request w (input st) (selectedImage st)
            in (handleSendMessage_settle outcome (handleSendMessage_begin st), calls)))"

subsection \<open>handleValidation\<close>

definition handleValidation_begin :: "Chat \<Rightarrow> Chat" where
  "handleValidation_begin st = st\<lparr>isProcessing := True\<rparr>"

definition handleValidation_settle :: "error + ValidationResponse \<Rightarrow> Chat \<Rightarrow> Chat" where
  "handleValidation_settle outcome st =
     (case outcome of
        Inr res \<Rightarrow>
          st\<lparr>messages := messages st @
                [\<lparr>role = assistant, content = ValidationResponse.response res, image = None,
                  agent = Some (utf16 ''HUMAN_VALIDATED''), resultImage = None\<rparr>],
             isProcessing := False\<rparr>
      | Inl e \<Rightarrow>
          st\<lparr>messages := messages st @
                [\<lparr>role = system,
                  content = utf16 ''Sorry, there was an error processing your validation. Please try again.'',
                  image = None, agent = None, resultImage = None\<rparr>],
             isProcessing := False\<rparr>)"

definition handleValidation ::
  "world \<Rightarrow> jsstring \<Rightarrow> jsstring \<Rightarrow> Chat \<Rightarrow> Chat \<times> fetch_call list" where
  "handleValidation w validation comments st =
     (let (outcome, calls) = sendValidation w validation comments
      in (handleValidation_settle outcome (handleValidation_begin st), calls))"

subsection \<open>clearChat\<close>

definition clearChat :: "Chat \<Rightarrow> Chat" where
  "clearChat st =
     st\<lparr>messages := [\<lparr>role = system, content = cleared_content, image = None,
                      agent = None, resultImage = None\<rparr>]\<rparr>"

section \<open>components/chat/Message.tsx: the validation prompt\<close>

text \<open>
  \<open>Chat\<close> hands a message its \<open>handleValidation\<close> as \<open>onValidation\<close> when the message's
  agent tag includes \<open>HUMAN_VALIDATION\<close>, and \<open>Message\<close> renders the two buttons and the
  comments field under the same test.
\<close>

definition asks_validation :: "Message \<Rightarrow> bool" where
  "asks_validation m =
     (case Message.agent m of
        None \<Rightarrow> False
      | Some a \<Rightarrow> includes_str a (utf16 ''HUMAN_VALIDATION''))"

datatype ValidationButton = Yes | No

text \<open>The argument each button's \<open>onClick\<close> gives \<open>handleValidation\<close>.\<close>

fun onClick :: "ValidationButton \<Rightarrow> jsstring" where
  "onClick Yes = utf16 ''yes''"
| "onClick No = utf16 ''no''"

text \<open>\<open>Message\<close>'s own \<open>handleValidation\<close>: it calls \<open>onValidation\<close>, when there is one.\<close>

definition Message_handleValidation ::
  "(jsstring \<Rightarrow> jsstring \<Rightarrow> 'r) option \<Rightarrow> jsstring \<Rightarrow> jsstring \<Rightarrow> 'r option" where
  "Message_handleValidation onValidation validationComments validation =
     (case onValidation of
        None \<Rightarrow> None
      | Some f \<Rightarrow> Some (f validation validationComments))"

text \<open>
  A click on a button of the \<open>i\<close>-th message, \<open>validationComments\<close> being the text of its
  comments field. A message that renders no buttons cannot be clicked: nothing happens.
\<close>

definition click_validation ::
  "world \<Rightarrow> nat \<Rightarrow> ValidationButton \<Rightarrow> jsstring \<Rightarrow> Chat \<Rightarrow> Chat \<times> fetch_call list" where
  "click_validation w i b validationComments st =
     (if i < length (messages st) \<and> asks_validation (messages st ! i) then
        (let onValidation =
               (if asks_validation (messages st ! i)
                then Some (\<lambda>validation comments. handleValidation w validation comments st)
                else None)
         in (case Message_handleValidation onValidation validationComments (onClick b) of
               None \<Rightarrow> (st, [])
             | Some r \<Rightarrow> r))
      else (st, []))"

section \<open>The page over time\<close>

text \<open>
  The browser runs one handler piece at a time. Between a handler's first piece and its
  last the page answers other events, so the history of the component is a run of events:
  the user's actions, and the settling of a call in flight. A call in flight keeps what its
  handler read when it started.
\<close>

datatype in_flight = SendPending jsstring "jsstring option" | ValidationPending jsstring jsstring

record Page =
  chat :: Chat
  pending :: "in_flight list"

datatype event =
    Typed jsstring
  | ImagePicked jsstring
  | ImageRemoved
  | SendClicked
  | ValidationClicked nat ValidationButton jsstring
  | ClearClicked
  | Settled nat world

text \<open>
  \<open>Typed\<close> is the textarea's \<open>onChange\<close> (and the transcript of a recording): \<open>setInput\<close>.
  \<open>ImagePicked\<close> is \<open>handleImageUpload\<close>'s \<open>reader.onload\<close>, \<open>ImageRemoved\<close> the
  preview's button. \<open>SendClicked\<close> is \<open>handleSendMessage\<close> up to its first \<open>await\<close>,
  \<open>ValidationClicked i b c\<close> a click on button \<open>b\<close> of the \<open>i\<close>-th message with \<open>c\<close> in its
  comments field. \<open>Settled k w\<close> resumes the \<open>k\<close>-th call in flight, the network having
  answered as \<open>w\<close>.
\<close>

fun step :: "event \<Rightarrow> Page \<Rightarrow> Page" where
  "step (Typed s) p = p\<lparr>chat := (chat p)\<lparr>input := s\<rparr>\<rparr>"
| "step (ImagePicked url) p = p\<lparr>chat := (chat p)\<lparr>selectedImage := Some url\<rparr>\<rparr>"
| "step ImageRemoved p = p\<lparr>chat := (chat p)\<lparr>selectedImage := None\<rparr>\<rparr>"
| "step SendClicked p =
     (if handleSendMessage_returns (chat p) then p
      else \<lparr>chat = handleSendMessage_begin (chat p),
            pending = pending p @ [SendPending (input (chat p)) (selectedImage (chat p))]\<rparr>)"
| "step (ValidationClicked i b c) p =
     (if i < length (messages (chat p)) \<and> asks_validation (messages (chat p) ! i)
      then \<lparr>chat = handleValidation_begin (chat p),
            pending = pending p @ [ValidationPending (onClick b) c]\<rparr>
      else p)"
| "step ClearClicked p = p\<lparr>chat := clearChat (chat p)\<rparr>"
| "step (Settled k w) p =
     (if k < length (pending p) then
        (case pending p ! k of
           SendPending inp sel \<Rightarrow>
             \<lparr>chat = handleSendMessage_settle (fst (handleSendMessage_request w inp sel)) (chat p),
              pending = take k (pending p) @ drop (Suc k) (pending p)\<rparr>
         | ValidationPending validation comments \<Rightarrow>
             \<lparr>chat = handleValidation_settle (fst (sendValidation w validation comments)) (chat p),
              pending = take k (pending p) @ drop (Suc k) (pending p)\<rparr>)
      else p)"

fun run :: "event list \<Rightarrow> Page \<Rightarrow> Page" where
  "run [] p = p"
| "run (e # es) p = run es (step e p)"

definition Page_initial :: Page where
  "Page_initial = \<lparr>chat = Chat_initial, pending = []\<rparr>"

section \<open>Vision agents and the validation gate\<close>

text \<open>
  Modelled from the spec: the agent identifiers of the agent contract (section 4.1). The
  agents run on the server, whose code is not among the sources.
\<close>

datatype AgentId = Conversation | Retrieval | Search | BrainTumor | ChestXray | SkinLesion

text \<open>Modelled from the spec: the status of an AgentResult (section 3).\<close>

datatype ResultStatus = StatusOk | StatusError

text \<open>
  Modelled from the spec: the AgentResult of section 3: status, response text, originating
  agent, optional result image, optional requiresValidation flag, optional structured
  payload (label and confidence for a vision agent).
\<close>

record AgentResult =
  resultStatus :: ResultStatus
  responseText :: jsstring
  originatingAgent :: AgentId
  annotatedImage :: "Blob option"
  requiresValidation :: "bool option"
  structured :: "(jsstring \<times> real) option"

text \<open>
  Modelled from the spec: the three image modalities of the router (section 4.2) and the
  vision agent of each.
\<close>

datatype Modality = BrainMRI | ChestXrayFilm | SkinLesionPhoto

fun vision_agent :: "Modality \<Rightarrow> AgentId" where
  "vision_agent BrainMRI = BrainTumor"
| "vision_agent ChestXrayFilm = ChestXray"
| "vision_agent SkinLesionPhoto = SkinLesion"

text \<open>
  Modelled from the spec: what the inference backend, a black box, returns for an image:
  a label, a score (\<open>None\<close> for NaN) and optionally an overlay; or a failure.
\<close>

record Inference =
  label :: jsstring
  score :: "real option"
  overlay :: "Blob option"

text \<open>
  Modelled from the spec: what a vision agent is configured with: the decoder's verdict on
  an image, the inference call, the confidence threshold (a parameter, section 9), and the
  wording of its replies, which the spec leaves open.
\<close>

record VisionSetup =
  decodable :: "Blob \<Rightarrow> bool"
  infer :: "Blob \<Rightarrow> error + Inference"
  threshold :: real
  say_finding :: "Inference \<Rightarrow> jsstring"
  say_low_confidence :: "Inference \<Rightarrow> jsstring"
  say_failure :: jsstring

text \<open>
  Modelled from the spec: \<open>handle\<close> of a vision agent (sections 4.1 and 4.5). The image is
  validated (non-empty, decodable) before inference; a failed validation, a failed inference
  and a score that is NaN or outside [0,1] give \<open>status: error\<close>; a score under the threshold
  gives the reply that flags low confidence. Every result sets \<open>requiresValidation = true\<close>,
  as section 4.5 asks of each vision AgentResult; that an error result does not move the
  gate is the gate's part (\<open>gate_admit\<close> below).
\<close>

definition vision_handle :: "VisionSetup \<Rightarrow> Modality \<Rightarrow> Blob \<Rightarrow> AgentResult" where
  "vision_handle cfg m img =
     (let failed = \<lparr>resultStatus = StatusError, responseText = say_failure cfg,
                     originatingAgent = vision_agent m, annotatedImage = None,
                     requiresValidation = Some True, structured = None\<rparr>
      in if bytes img = [] \<or> \<not> decodable cfg img then failed
         else (case infer cfg img of
                 Inl e \<Rightarrow> failed
               | Inr found \<Rightarrow>
                   (case score found of
                      None \<Rightarrow> failed
                    | Some c \<Rightarrow>
                        if c < 0 \<or> 1 < c then failed
                        else \<lparr>resultStatus = StatusOk,
                              responseText = (if c < threshold cfg then say_low_confidence cfg found
                                              else say_finding cfg found),
                              originatingAgent = vision_agent m,
                              annotatedImage = overlay found,
                              requiresValidation = Some True,
                              structured = Some (label found, c)\<rparr>)))"

text \<open>Modelled from the spec: the PendingValidation of section 3.\<close>

record PendingValidation =
  held :: AgentResult
  producer :: AgentId
  created :: nat

text \<open>
  Modelled from the spec: the Session of section 3: its history of turns (a turn has the
  fields of \<open>Message\<close>) and its pending validation, if any.
\<close>

record Session =
  history :: "Message list"
  pendingValidation :: "PendingValidation option"

text \<open>Modelled from the spec: the two states of the validation gate (section 4.6).\<close>

datatype GateState = NONE | PENDING

text \<open>Modelled from the spec: the state of the validation gate of a session (section 4.6).\<close>

definition gate_state :: "Session \<Rightarrow> GateState" where
  "gate_state s = (case pendingValidation s of None \<Rightarrow> NONE | Some pv \<Rightarrow> PENDING)"

text \<open>Modelled from the spec: the turn an AgentResult becomes when it is final.\<close>

definition final_turn :: "AgentResult \<Rightarrow> jsstring \<Rightarrow> Message" where
  "final_turn r tag =
     \<lparr>role = assistant, content = responseText r, image = None, agent = Some tag,
      resultImage = None\<rparr>"

text \<open>
  Modelled from the spec: the gate's transition out of \<open>NONE\<close> (section 4.6), for a session
  with history \<open>h\<close> and no pending validation, at time \<open>now\<close>. A result with
  \<open>status: error\<close> is surfaced to the caller and changes nothing: no gate state change
  (section 8, scenario D) and no final turn. Of the other results, one with
  \<open>requiresValidation = true\<close> is held and not appended to the history; any other is
  appended as final, under the tag \<open>tag\<close> of its agent.
\<close>

definition gate_admit :: "nat \<Rightarrow> jsstring \<Rightarrow> AgentResult \<Rightarrow> Message list \<Rightarrow> Session" where
  "gate_admit now tag r h =
     (if resultStatus r = StatusError
      then \<lparr>history = h, pendingValidation = None\<rparr>
      else if requiresValidation r = Some True
      then \<lparr>history = h,
            pendingValidation = Some \<lparr>held = r, producer = originatingAgent r, created = now\<rparr>\<rparr>
      else \<lparr>history = h @ [final_turn r tag], pendingValidation = None\<rparr>)"

section \<open>Scenarios\<close>

text \<open>Worlds and states the theorems below are run on.\<close>

definition png :: Blob where
  "png = \<lparr>bytes = [137, 80, 78, 71], mime = utf16 ''image/png''\<rparr>"

definition offline :: world where
  "offline =
     \<lparr>NEXT_PUBLIC_API_URL = None,
      fetch_chat = (\<lambda>c. Inl Rejected),
      fetch_validation = (\<lambda>c. Inl Rejected),
      fetch_blob = (\<lambda>c. Inl Rejected)\<rparr>"

text \<open>A server that answers every call with 200, the given bodies, and \<open>png\<close> for a blob.\<close>

definition serving :: "jsstring option \<Rightarrow> ChatResponse \<Rightarrow> ValidationResponse \<Rightarrow> world" where
  "serving base chatBody validationBody =
     \<lparr>NEXT_PUBLIC_API_URL = base,
      fetch_chat = (\<lambda>c. Inr \<lparr>ok = True, payload = Inr chatBody\<rparr>),
      fetch_validation = (\<lambda>c. Inr \<lparr>ok = True, payload = Inr validationBody\<rparr>),
      fetch_blob = (\<lambda>c. Inr \<lparr>ok = True, payload = Inr png\<rparr>)\<rparr>"

definition tumor_reply :: ChatResponse where
  "tumor_reply =
     \<lparr>ChatResponse.status = utf16 ''success'', ChatResponse.response = utf16 ''Brain MRI: tumor detected.'',
      ChatResponse.agent = utf16 ''BRAIN_TUMOR_AGENT, HUMAN_VALIDATION'', result_image = None\<rparr>"

definition hello_reply :: ChatResponse where
  "hello_reply =
     \<lparr>ChatResponse.status = utf16 ''success'', ChatResponse.response = utf16 ''Hello!'',
      ChatResponse.agent = utf16 ''CONVERSATION_AGENT'', result_image = None\<rparr>"

definition validated_reply :: ValidationResponse where
  "validated_reply =
     \<lparr>status = utf16 ''validated'', message = utf16 ''Output confirmed'',
      response = utf16 ''Brain MRI: tumor detected.''\<rparr>"

text \<open>
  The chat after an MRI was uploaded and answered with \<open>tumor_reply\<close>: the answer, the
  third message, asks for validation.
\<close>

definition awaiting_validation :: Chat where
  "awaiting_validation =
     \<lparr>messages =
        [\<lparr>role = assistant, content = welcome_content, image = None, agent = None,
          resultImage = None\<rparr>,
         \<lparr>role = user, content = [], image = Some (utf16 ''data:image/png;base64,iVBORw''),
          agent = None, resultImage = None\<rparr>,
         \<lparr>role = assistant, content = utf16 ''Brain MRI: tumor detected.'', image = None,
          agent = Some (utf16 ''BRAIN_TUMOR_AGENT, HUMAN_VALIDATION''), resultImage = None\<rparr>],
      input = [], isRecording = False, isProcessing = False, selectedImage = None\<rparr>"

definition skin_reply :: "jsstring option \<Rightarrow> ChatResponse" where
  "skin_reply img =
     \<lparr>ChatResponse.status = utf16 ''success'',
      ChatResponse.response = utf16 ''Skin lesion segmented.'',
      ChatResponse.agent = utf16 ''SKIN_LESION_AGENT, HUMAN_VALIDATION'',
      result_image = img\<rparr>"

definition photo :: File where
  "photo = \<lparr>bits = png, name = utf16 ''image.jpg''\<rparr>"

definition recorded_reply :: ValidationResponse where
  "recorded_reply =
     \<lparr>status = utf16 ''validated'', message = utf16 ''Output confirmed'',
      response = utf16 ''Validation recorded.''\<rparr>"


text \<open>The page showing that chat, with \<open>hello\<close> typed and no call in flight.\<close>

definition typed_hello :: Page where
  "typed_hello = \<lparr>chat = awaiting_validation\<lparr>input := utf16 ''hello''\<rparr>, pending = []\<rparr>"

text \<open>A vision agent set up with a decoder that accepts every image and an inference
  that finds a glioma with score 0.9.\<close>

definition clinic :: VisionSetup where
  "clinic =
     \<lparr>decodable = (\<lambda>b. True),
      infer = (\<lambda>b. Inr \<lparr>label = utf16 ''glioma'', score = Some (9 / 10), overlay = None\<rparr>),
      threshold = 1 / 2,
      say_finding = (\<lambda>found. utf16 ''Finding: '' @ label found),
      say_low_confidence = (\<lambda>found. utf16 ''Low confidence: '' @ label found),
      say_failure = utf16 ''The image could not be analyzed.''\<rparr>"

text \<open>
  The page after \<open>hello\<close> was sent from \<open>typed_hello\<close>, Yes was clicked on the result
  and the validation settled, the chat call still in flight, and \<open>again\<close> was typed.
\<close>

definition busy_page :: Page where
  "busy_page =
     \<lparr>chat =
        \<lparr>messages = messages awaiting_validation @
           [\<lparr>role = user, content = utf16 ''hello'', image = None, agent = None,
             resultImage = None\<rparr>,
            \<lparr>role = assistant, content = utf16 ''Brain MRI: tumor detected.'', image = None,
             agent = Some (utf16 ''HUMAN_VALIDATED''), resultImage = None\<rparr>],
         input = utf16 ''again'', isRecording = False, isProcessing = False,
         selectedImage = None\<rparr>,
      pending = [SendPending (utf16 ''hello'') None]\<rparr>"

section \<open>Properties of the string functions\<close>

lemma trim_blank: "trim (utf16 ''  '' @ [10, 9]) = []"
  by (simp add: trim_def utf16_def isWhiteSpace_def)

section \<open>The frame of a refused send\<close>

text \<open>
  The guard of \<open>handleSendMessage\<close>: if the input is empty or only white space once
  trimmed and no image is selected, or the flag \<open>isProcessing\<close> is set, the handler
  returns at once: it makes no fetch call and the state (the messages, the input field, the
  selected image) is as it was.
\<close>

theorem handleSendMessage_refused_frame:
  assumes "(trim (input st) = [] \<and> selectedImage st = None) \<or> isProcessing st"
  shows "handleSendMessage w st = (st, [])"
  using assms
  by (auto simp: handleSendMessage_def handleSendMessage_returns_def truthy_def truthy_opt_def)

theorem handleSendMessage_refused_frame_witness:
  "trim (input (Chat_initial\<lparr>input := utf16 ''  '' @ [10, 9]\<rparr>)) = []
   \<and> selectedImage (Chat_initial\<lparr>input := utf16 ''  '' @ [10, 9]\<rparr>) = None
   \<and> handleSendMessage offline (Chat_initial\<lparr>input := utf16 ''  '' @ [10, 9]\<rparr>)
       = (Chat_initial\<lparr>input := utf16 ''  '' @ [10, 9]\<rparr>, [])
   \<and> isProcessing (Chat_initial\<lparr>input := utf16 ''hello'', isProcessing := True\<rparr>)
   \<and> handleSendMessage offline (Chat_initial\<lparr>input := utf16 ''hello'', isProcessing := True\<rparr>)
       = (Chat_initial\<lparr>input := utf16 ''hello'', isProcessing := True\<rparr>, [])"
proof -
  have blank: "trim (input (Chat_initial\<lparr>input := utf16 ''  '' @ [10, 9]\<rparr>)) = []
     \<and> selectedImage (Chat_initial\<lparr>input := utf16 ''  '' @ [10, 9]\<rparr>) = None"
    by (simp add: trim_blank Chat_initial_def)
  have busy: "isProcessing (Chat_initial\<lparr>input := utf16 ''hello'', isProcessing := True\<rparr>)"
    by simp
  from handleSendMessage_refused_frame [OF disjI1 [OF blank], of offline]
       handleSendMessage_refused_frame [OF disjI2 [OF busy], of offline] blank busy
  show ?thesis by blast
qed

section \<open>The calls of lib/api.ts\<close>

lemma API_BASE_URL_default [simp]:
  "API_BASE_URL (serving None a b) = utf16 ''http://localhost:8000''"
  "API_BASE_URL offline = utf16 ''http://localhost:8000''"
  by (simp_all add: API_BASE_URL_def serving_def offline_def)

lemma sendValidation_calls:
  "snd (sendValidation w validation comments) =
     [(API_BASE_URL w @ utf16 ''/api/validate'',
       Some \<lparr>method' = Some (utf16 ''POST''), headers = [],
             body = Some (FormData [(utf16 ''validation_result'', StringValue validation),
                                    (utf16 ''comments'', StringValue comments)]),
             credentials = Some (utf16 ''include'')\<rparr>)]"
  by (simp add: sendValidation_def Let_def split: sum.splits)

lemma sendValidation_result:
  "(fst (sendValidation w validation comments) = Inr r) =
     (\<exists>res. fetch_validation w (hd (snd (sendValidation w validation comments))) = Inr res
            \<and> ok res \<and> payload res = Inr r)"
  by (simp only: sendValidation_calls list.sel)
     (auto simp: sendValidation_def Let_def split: sum.splits)

lemma sendChatMessage_calls:
  "snd (sendChatMessage w msg) =
     [(API_BASE_URL w @ utf16 ''/api/chat'',
       Some \<lparr>method' = Some (utf16 ''POST''),
             headers = [(utf16 ''Content-Type'', utf16 ''application/json'')],
             body = Some (JSON_stringify (JObject
                      [(utf16 ''query'', JString msg),
                       (utf16 ''conversation_history'', JArray [])])),
             credentials = Some (utf16 ''include'')\<rparr>)]"
  by (simp add: sendChatMessage_def Let_def split: sum.splits)

lemma sendChatMessage_result:
  "(fst (sendChatMessage w msg) = Inr r) =
     (\<exists>res. fetch_chat w (hd (snd (sendChatMessage w msg))) = Inr res
            \<and> ok res \<and> payload res = Inr r)"
  by (simp only: sendChatMessage_calls list.sel)
     (auto simp: sendChatMessage_def Let_def split: sum.splits)

lemma generateSpeech_calls:
  "snd (generateSpeech w request) =
     [(API_BASE_URL w @ utf16 ''/api/generate-speech'',
       Some \<lparr>method' = Some (utf16 ''POST''),
             headers = [(utf16 ''Content-Type'', utf16 ''application/json'')],
             body = Some (JSON_stringify (SpeechRequest_json request)),
             credentials = None\<rparr>)]"
  by (simp add: generateSpeech_def Let_def split: sum.splits)

lemma generateSpeech_result:
  "(fst (generateSpeech w request) = Inr blob) =
     (\<exists>res. fetch_blob w (hd (snd (generateSpeech w request))) = Inr res
            \<and> ok res \<and> payload res = Inr blob)"
  by (simp only: generateSpeech_calls list.sel)
     (auto simp: generateSpeech_def Let_def split: sum.splits)

lemma SpeechRequest_json_fields:
  "\<exists>fields. SpeechRequest_json request = JObject fields
     \<and> map_of fields (utf16 ''text'') = Some (JString (text' request))
     \<and> map_of fields (utf16 ''voice_id'') = map_option JString (voice_id request)
     \<and> map_of fields (utf16 ''language'') = map_option JString (language request)
     \<and> set (map fst fields) \<subseteq> {utf16 ''text'', utf16 ''voice_id'', utf16 ''language''}"
  by (auto simp: SpeechRequest_json_def utf16_def split: option.splits)

lemma uploadImage_calls:
  "snd (uploadImage w file txt) =
     [(API_BASE_URL w @ utf16 ''/api/upload'',
       Some \<lparr>method' = Some (utf16 ''POST''), headers = [],
             body = Some (FormData [(utf16 ''image'', FileValue file),
                                    (utf16 ''text'', StringValue txt)]),
             credentials = Some (utf16 ''include'')\<rparr>)]"
  by (simp add: uploadImage_def Let_def split: sum.splits option.splits)

text \<open>
  C8: a speech request is one POST to the endpoint \<open>/generate-speech\<close>, at the URL made of
  the API base URL and \<open>/api/generate-speech\<close>, with a JSON
  body made of the request: the field \<open>text\<close>, and \<open>voice_id\<close> and \<open>language\<close> when the
  request has them, nothing else. The call returns a blob exactly when the response is ok
  and its body reads as that blob: the payload is handed on as it came.
\<close>

theorem speech_request_contract:
  "snd (generateSpeech w request) =
     [(API_BASE_URL w @ utf16 ''/api/generate-speech'',
       Some \<lparr>method' = Some (utf16 ''POST''),
             headers = [(utf16 ''Content-Type'', utf16 ''application/json'')],
             body = Some (JSON_stringify (SpeechRequest_json request)),
             credentials = None\<rparr>)]
   \<and> (\<exists>fields. SpeechRequest_json request = JObject fields
        \<and> map_of fields (utf16 ''text'') = Some (JString (text' request))
        \<and> map_of fields (utf16 ''voice_id'') = map_option JString (voice_id request)
        \<and> map_of fields (utf16 ''language'') = map_option JString (language request)
        \<and> set (map fst fields) \<subseteq> {utf16 ''text'', utf16 ''voice_id'', utf16 ''language''})
   \<and> ((fst (generateSpeech w request) = Inr blob) =
        (\<exists>res. fetch_blob w (hd (snd (generateSpeech w request))) = Inr res
               \<and> ok res \<and> payload res = Inr blob))"
  using generateSpeech_calls SpeechRequest_json_fields generateSpeech_result by blast

text \<open>
  C9 as stated fails: a \<open>result_image\<close> the server sends as the empty string is returned as
  it is, present and not starting with \<open>http\<close>; and with \<open>NEXT_PUBLIC_API_URL\<close> set to a
  path such as \<open>/backend\<close> the prefixed value does not start with \<open>http\<close> either.
\<close>

theorem uploadImage_result_image_counterexample:
  "fst (uploadImage (serving None (skin_reply (Some [])) validated_reply) photo [])
     = Inr (skin_reply (Some []))
   \<and> result_image (skin_reply (Some [])) = Some []
   \<and> \<not> startsWith [] (utf16 ''http'')
   \<and> fst (uploadImage (serving (Some (utf16 ''/backend''))
                          (skin_reply (Some (utf16 ''/uploads/plot.png''))) validated_reply)
            photo [])
     = Inr (skin_reply (Some (utf16 ''/backend/uploads/plot.png'')))
   \<and> \<not> startsWith (utf16 ''/backend/uploads/plot.png'') (utf16 ''http'')"
  by (simp add: uploadImage_def serving_def skin_reply_def truthy_def startsWith_def
                API_BASE_URL_def utf16_def)

text \<open>
  C9, amended: a response \<open>r\<close> returned by \<open>uploadImage\<close> is the body \<open>data\<close> of an ok
  response with at most \<open>result_image\<close> changed. A server value that is not empty and does
  not start with \<open>http\<close> is prefixed with the API base URL; an absent value, an empty one
  and one starting with \<open>http\<close> are returned as they came. So a \<open>result_image\<close> that is
  present and not empty starts with \<open>http\<close> whenever the API base URL does, as the default
  \<open>http://localhost:8000\<close> does.
\<close>

theorem uploadImage_result_image:
  assumes "fst (uploadImage w file txt) = Inr r"
  shows "\<exists>res data.
           fetch_chat w (hd (snd (uploadImage w file txt))) = Inr res \<and> ok res
         \<and> payload res = Inr data
         \<and> r = data\<lparr>result_image := result_image r\<rparr>
         \<and> result_image r =
             (case result_image data of
                None \<Rightarrow> None
              | Some img \<Rightarrow>
                  Some (if img \<noteq> [] \<and> \<not> startsWith img (utf16 ''http'')
                        then API_BASE_URL w @ img else img))
         \<and> (\<forall>img. result_image r = Some img \<and> img \<noteq> []
                   \<and> startsWith (API_BASE_URL w) (utf16 ''http'')
                \<longrightarrow> startsWith img (utf16 ''http''))"
  using assms
  apply (simp only: uploadImage_calls list.sel)
  apply (auto simp: uploadImage_def Let_def truthy_def startsWith_def
              split: sum.splits option.splits if_splits)
  done

theorem uploadImage_result_image_witness:
  "fst (uploadImage (serving None (skin_reply (Some (utf16 ''/uploads/plot.png''))) validated_reply)
          photo [])
     = Inr (skin_reply (Some (utf16 ''http://localhost:8000/uploads/plot.png'')))
   \<and> startsWith (utf16 ''http://localhost:8000/uploads/plot.png'') (utf16 ''http'')"
proof -
  let ?w = "serving None (skin_reply (Some (utf16 ''/uploads/plot.png''))) validated_reply"
  let ?r = "skin_reply (Some (utf16 ''http://localhost:8000/uploads/plot.png''))"
  have h: "fst (uploadImage ?w photo []) = Inr ?r"
    by (simp add: uploadImage_def serving_def skin_reply_def truthy_def startsWith_def
                  API_BASE_URL_def utf16_def)
  have base: "startsWith (API_BASE_URL ?w) (utf16 ''http'')"
    by (simp add: startsWith_def utf16_def)
  from uploadImage_result_image [OF h]
  have "\<forall>img. result_image ?r = Some img \<and> img \<noteq> []
            \<and> startsWith (API_BASE_URL ?w) (utf16 ''http'')
          \<longrightarrow> startsWith img (utf16 ''http'')"
    by blast
  then have "startsWith (utf16 ''http://localhost:8000/uploads/plot.png'') (utf16 ''http'')"
    using base by (simp add: skin_reply_def utf16_def)
  with h show ?thesis by simp
qed

section \<open>The requests of a turn and of a validation\<close>

lemma asks_awaiting:
  "2 < length (messages awaiting_validation)"
  "asks_validation (messages awaiting_validation ! 2)"
  by (simp_all add: awaiting_validation_def asks_validation_def utf16_def)

text \<open>
  C6: a click on a validation button of a message that asks for validation makes one
  call: a POST to the endpoint \<open>/validate\<close>, at the URL made of the API base URL and
  \<open>/api/validate\<close>, its body a form with exactly the fields
  \<open>validation_result\<close>, which is \<open>yes\<close> or \<open>no\<close>, and \<open>comments\<close>, the text of the
  comments field. The call gives a \<open>ValidationResponse\<close> (fields \<open>status\<close>, \<open>message\<close>,
  \<open>response\<close>) exactly when the response is ok and its body reads as one.
\<close>

theorem validation_submission_contract:
  assumes "i < length (messages st)" and "asks_validation (messages st ! i)"
  shows "snd (click_validation w i b c st) =
           [(API_BASE_URL w @ utf16 ''/api/validate'',
             Some \<lparr>method' = Some (utf16 ''POST''), headers = [],
                   body = Some (FormData [(utf16 ''validation_result'', StringValue (onClick b)),
                                          (utf16 ''comments'', StringValue c)]),
                   credentials = Some (utf16 ''include'')\<rparr>)]
         \<and> (onClick b = utf16 ''yes'' \<or> onClick b = utf16 ''no'')
         \<and> ((fst (sendValidation w (onClick b) c) = Inr r) =
              (\<exists>res. fetch_validation w (hd (snd (click_validation w i b c st))) = Inr res
                     \<and> ok res \<and> payload res = Inr r))"
proof -
  have calls: "snd (click_validation w i b c st) = snd (sendValidation w (onClick b) c)"
    using assms
    by (simp add: click_validation_def Message_handleValidation_def handleValidation_def
                  split_beta)
  have button: "onClick b = utf16 ''yes'' \<or> onClick b = utf16 ''no''"
    by (cases b) simp_all
  show ?thesis
    unfolding calls using sendValidation_calls sendValidation_result button by blast
qed

theorem validation_submission_contract_witness:
  "snd (click_validation offline 2 Yes (utf16 ''ok'') awaiting_validation) =
     [(utf16 ''http://localhost:8000/api/validate'',
       Some \<lparr>method' = Some (utf16 ''POST''), headers = [],
             body = Some (FormData [(utf16 ''validation_result'', StringValue (utf16 ''yes'')),
                                    (utf16 ''comments'', StringValue (utf16 ''ok''))]),
             credentials = Some (utf16 ''include'')\<rparr>)]"
  using validation_submission_contract [OF asks_awaiting, of offline Yes "utf16 ''ok''"]
  by (simp add: utf16_def)

lemma text_turn_hello:
  "\<not> truthy_opt (selectedImage (Chat_initial\<lparr>input := utf16 '' hello ''\<rparr>))"
  "\<not> handleSendMessage_returns (Chat_initial\<lparr>input := utf16 '' hello ''\<rparr>)"
  "trim (utf16 '' hello '') = utf16 ''hello''"
  by (simp_all add: Chat_initial_def truthy_opt_def handleSendMessage_returns_def truthy_def
                    trim_def utf16_def isWhiteSpace_def)

text \<open>
  C7: a turn with no image that \<open>handleSendMessage\<close> accepts makes one call: a POST to
  the endpoint \<open>/chat\<close>, at the URL made of the API base URL and \<open>/api/chat\<close>, its body
  the JSON object with exactly the fields \<open>query\<close>,
  the trimmed input, and \<open>conversation_history\<close>, a list of turns (the client always sends
  the empty list). The call gives a \<open>ChatResponse\<close> (fields \<open>status\<close>, \<open>response\<close>,
  \<open>agent\<close>, and \<open>result_image\<close> when present) exactly when the response is ok and its body
  reads as one, and the reply appended to the chat is made of these fields.
\<close>

theorem text_turn_contract:
  assumes "\<not> truthy_opt (selectedImage st)" and "\<not> handleSendMessage_returns st"
  shows "snd (handleSendMessage w st) =
           [(API_BASE_URL w @ utf16 ''/api/chat'',
             Some \<lparr>method' = Some (utf16 ''POST''),
                   headers = [(utf16 ''Content-Type'', utf16 ''application/json'')],
                   body = Some (JSON_stringify (JObject
                            [(utf16 ''query'', JString (trim (input st))),
                             (utf16 ''conversation_history'', JArray [])])),
                   credentials = Some (utf16 ''include'')\<rparr>)]
         \<and> ((fst (sendChatMessage w (trim (input st))) = Inr r) =
              (\<exists>res. fetch_chat w (hd (snd (handleSendMessage w st))) = Inr res
                     \<and> ok res \<and> payload res = Inr r))
         \<and> (fst (sendChatMessage w (trim (input st))) = Inr r \<longrightarrow>
              messages (fst (handleSendMessage w st)) =
                messages st @
                  [newMessage st,
                   \<lparr>role = assistant, content = ChatResponse.response r, image = None,
                    agent = Some (ChatResponse.agent r), resultImage = result_image r\<rparr>])"
proof -
  have calls: "snd (handleSendMessage w st) = snd (sendChatMessage w (trim (input st)))"
    using assms
    by (simp add: handleSendMessage_def handleSendMessage_request_def split_beta)
  have msgs: "fst (sendChatMessage w (trim (input st))) = Inr r \<Longrightarrow>
      messages (fst (handleSendMessage w st)) =
        messages st @
          [newMessage st,
           \<lparr>role = assistant, content = ChatResponse.response r, image = None,
            agent = Some (ChatResponse.agent r), resultImage = result_image r\<rparr>]"
    using assms
    by (simp add: handleSendMessage_def handleSendMessage_request_def split_beta
                  handleSendMessage_settle_def handleSendMessage_begin_def)
  show ?thesis
    unfolding calls using sendChatMessage_calls sendChatMessage_result msgs by blast
qed

theorem text_turn_contract_witness:
  "snd (handleSendMessage (serving None hello_reply validated_reply)
          (Chat_initial\<lparr>input := utf16 '' hello ''\<rparr>)) =
     [(utf16 ''http://localhost:8000/api/chat'',
       Some \<lparr>method' = Some (utf16 ''POST''),
             headers = [(utf16 ''Content-Type'', utf16 ''application/json'')],
             body = Some (JSON_stringify (JObject
                      [(utf16 ''query'', JString (utf16 ''hello'')),
                       (utf16 ''conversation_history'', JArray [])])),
             credentials = Some (utf16 ''include'')\<rparr>)]"
  using text_turn_contract [OF text_turn_hello(1,2), of "serving None hello_reply validated_reply"]
        text_turn_hello(3)
  by (simp add: utf16_def)

section \<open>What a validation appends\<close>

lemma click_validation_asks:
  assumes "i < length (messages st)" and "asks_validation (messages st ! i)"
  shows "click_validation w i b c st = handleValidation w (onClick b) c st"
  using assms by (simp add: click_validation_def Message_handleValidation_def)

text \<open>
  C1 as stated fails. With the server out of reach, a click on Yes with the comment \<open>ok\<close>
  appends a system note that carries no agent tag; and with a server whose reply has another
  \<open>response\<close> text than the result on hold, the appended entry has the server's text, not
  the held one: the client appends what the reply says and compares nothing.
\<close>

theorem validation_appends_one_counterexample:
  "messages (fst (click_validation offline 2 Yes (utf16 ''ok'') awaiting_validation))
     = messages awaiting_validation @
         [\<lparr>role = system,
           content = utf16 ''Sorry, there was an error processing your validation. Please try again.'',
           image = None, agent = None, resultImage = None\<rparr>]
   \<and> messages (fst (click_validation (serving None hello_reply recorded_reply) 2 Yes (utf16 ''ok'')
                      awaiting_validation))
     = messages awaiting_validation @
         [\<lparr>role = assistant, content = utf16 ''Validation recorded.'', image = None,
           agent = Some (utf16 ''HUMAN_VALIDATED''), resultImage = None\<rparr>]
   \<and> content (messages awaiting_validation ! 2) = utf16 ''Brain MRI: tumor detected.''
   \<and> utf16 ''Validation recorded.'' \<noteq> utf16 ''Brain MRI: tumor detected.''"
  by (simp add: click_validation_asks [OF asks_awaiting] handleValidation_def
                handleValidation_settle_def handleValidation_begin_def sendValidation_def
                offline_def serving_def recorded_reply_def)
     (simp add: awaiting_validation_def utf16_def)

text \<open>
  C1, amended: a click on a validation button (Yes or No) of a message that asks for
  validation appends exactly one entry. When the request to \<open>/validate\<close> succeeds, the
  entry is an assistant message tagged \<open>HUMAN_VALIDATED\<close> whose content is the \<open>response\<close>
  field of the server's reply; when it fails, the entry is the system note of the error
  path, without a tag.
\<close>

theorem validation_appends_one:
  assumes "i < length (messages st)" and "asks_validation (messages st ! i)"
  shows "\<exists>entry. messages (fst (click_validation w i b c st)) = messages st @ [entry]
           \<and> (case fst (sendValidation w (onClick b) c) of
                 Inr res \<Rightarrow>
                   entry = \<lparr>role = assistant, content = ValidationResponse.response res,
                            image = None, agent = Some (utf16 ''HUMAN_VALIDATED''),
                            resultImage = None\<rparr>
               | Inl e \<Rightarrow>
                   entry = \<lparr>role = system,
                            content = utf16 ''Sorry, there was an error processing your validation. Please try again.'',
                            image = None, agent = None, resultImage = None\<rparr>)"
  unfolding click_validation_asks [OF assms]
  by (simp add: handleValidation_def handleValidation_settle_def handleValidation_begin_def
                split_beta split: sum.splits)

theorem validation_appends_one_witness:
  "messages (fst (click_validation (serving None hello_reply validated_reply) 2 Yes (utf16 ''ok'')
                    awaiting_validation))
     = messages awaiting_validation @
         [\<lparr>role = assistant, content = utf16 ''Brain MRI: tumor detected.'', image = None,
           agent = Some (utf16 ''HUMAN_VALIDATED''), resultImage = None\<rparr>]"
proof -
  let ?w = "serving None hello_reply validated_reply"
  have r: "fst (sendValidation ?w (onClick Yes) (utf16 ''ok'')) = Inr validated_reply"
    by (simp add: sendValidation_def serving_def)
  from validation_appends_one [OF asks_awaiting, of ?w Yes "utf16 ''ok''"]
  obtain entry where
    a: "messages (fst (click_validation ?w 2 Yes (utf16 ''ok'') awaiting_validation))
          = messages awaiting_validation @ [entry]" and
    b: "case fst (sendValidation ?w (onClick Yes) (utf16 ''ok'')) of
          Inr res \<Rightarrow>
            entry = \<lparr>role = assistant, content = ValidationResponse.response res,
                     image = None, agent = Some (utf16 ''HUMAN_VALIDATED''),
                     resultImage = None\<rparr>
        | Inl e \<Rightarrow>
            entry = \<lparr>role = system,
                     content = utf16 ''Sorry, there was an error processing your validation. Please try again.'',
                     image = None, agent = None, resultImage = None\<rparr>"
    by blast
  from b have "entry = \<lparr>role = assistant, content = ValidationResponse.response validated_reply,
                     image = None, agent = Some (utf16 ''HUMAN_VALIDATED''),
                     resultImage = None\<rparr>"
    unfolding r by simp
  with a show ?thesis by (simp add: validated_reply_def)
qed

section \<open>A turn while a validation is outstanding\<close>

lemma handleSendMessage_accepted:
  assumes "\<not> handleSendMessage_returns st"
  shows "snd (handleSendMessage w st) \<noteq> []"
    and "\<exists>reply. messages (fst (handleSendMessage w st)) = messages st @ [newMessage st, reply]
           \<and> (role reply = assistant
              \<or> reply = \<lparr>role = system,
                          content = utf16 ''Sorry, there was an error processing your request. Please try again.'',
                          image = None, agent = None, resultImage = None\<rparr>)"
  using assms
  by (auto simp: handleSendMessage_def handleSendMessage_request_def split_beta
                handleSendMessage_settle_def handleSendMessage_begin_def
                sendChatMessage_calls uploadImage_calls
          split: sum.splits)

lemma handleSendMessage_history_blind:
  "handleSendMessage w (st\<lparr>messages := ms\<rparr>) =
     (fst (handleSendMessage w st)
        \<lparr>messages := ms @ drop (length (messages st)) (messages (fst (handleSendMessage w st)))\<rparr>,
      snd (handleSendMessage w st))"
  by (auto simp: handleSendMessage_def handleSendMessage_returns_def
                handleSendMessage_settle_def handleSendMessage_begin_def newMessage_def
                split_beta split: sum.splits)

lemma hello_turn:
  "\<not> handleSendMessage_returns (awaiting_validation\<lparr>input := utf16 ''hello''\<rparr>)"
  "trim (utf16 ''hello'') = utf16 ''hello''"
  by (simp_all add: awaiting_validation_def truthy_opt_def handleSendMessage_returns_def truthy_def
                    trim_def utf16_def isWhiteSpace_def)

text \<open>
  C2 as stated fails. The chat shows a result that asks for validation, not yet answered,
  and the user sends \<open>hello\<close>. The turn is not refused: it is appended under the
  unconfirmed result and posted to \<open>/chat\<close>, and the server's answer is appended after it.
  With the server out of reach the turn is appended all the same, followed by the one
  generic error note of \<open>handleSendMessage\<close>.
\<close>

theorem handleSendMessage_ungated_counterexample:
  "asks_validation (messages (awaiting_validation\<lparr>input := utf16 ''hello''\<rparr>) ! 2)
   \<and> handleSendMessage (serving None hello_reply validated_reply)
        (awaiting_validation\<lparr>input := utf16 ''hello''\<rparr>)
     = (awaiting_validation
          \<lparr>messages := messages awaiting_validation @
             [\<lparr>role = user, content = utf16 ''hello'', image = None, agent = None,
               resultImage = None\<rparr>,
              \<lparr>role = assistant, content = utf16 ''Hello!'', image = None,
               agent = Some (utf16 ''CONVERSATION_AGENT''), resultImage = None\<rparr>]\<rparr>,
        [(utf16 ''http://localhost:8000/api/chat'',
          Some \<lparr>method' = Some (utf16 ''POST''),
                headers = [(utf16 ''Content-Type'', utf16 ''application/json'')],
                body = Some (JSON_stringify (JObject
                         [(utf16 ''query'', JString (utf16 ''hello'')),
                          (utf16 ''conversation_history'', JArray [])])),
                credentials = Some (utf16 ''include'')\<rparr>)])
   \<and> messages (fst (handleSendMessage offline (awaiting_validation\<lparr>input := utf16 ''hello''\<rparr>)))
     = messages awaiting_validation @
         [\<lparr>role = user, content = utf16 ''hello'', image = None, agent = None,
           resultImage = None\<rparr>,
          \<lparr>role = system,
           content = utf16 ''Sorry, there was an error processing your request. Please try again.'',
           image = None, agent = None, resultImage = None\<rparr>]"
proof -
  have sel: "selectedImage awaiting_validation = None" "isProcessing awaiting_validation = False"
    "input awaiting_validation = []"
    by (simp_all add: awaiting_validation_def)
  have a: "asks_validation (messages (awaiting_validation\<lparr>input := utf16 ''hello''\<rparr>) ! 2)"
    using asks_awaiting(2) by simp
  have b: "handleSendMessage (serving None hello_reply validated_reply)
        (awaiting_validation\<lparr>input := utf16 ''hello''\<rparr>)
     = (awaiting_validation
          \<lparr>messages := messages awaiting_validation @
             [\<lparr>role = user, content = utf16 ''hello'', image = None, agent = None,
               resultImage = None\<rparr>,
              \<lparr>role = assistant, content = utf16 ''Hello!'', image = None,
               agent = Some (utf16 ''CONVERSATION_AGENT''), resultImage = None\<rparr>]\<rparr>,
        [(utf16 ''http://localhost:8000/api/chat'',
          Some \<lparr>method' = Some (utf16 ''POST''),
                headers = [(utf16 ''Content-Type'', utf16 ''application/json'')],
                body = Some (JSON_stringify (JObject
                         [(utf16 ''query'', JString (utf16 ''hello'')),
                          (utf16 ''conversation_history'', JArray [])])),
                credentials = Some (utf16 ''include'')\<rparr>)])"
    using hello_turn(1)
    apply (simp add: handleSendMessage_def handleSendMessage_request_def sel truthy_opt_def
                  hello_turn(2) sendChatMessage_def handleSendMessage_settle_def
                  handleSendMessage_begin_def newMessage_def hello_reply_def)
    apply (simp add: serving_def)
    apply (simp add: utf16_def awaiting_validation_def)
    done
  have c: "messages (fst (handleSendMessage offline (awaiting_validation\<lparr>input := utf16 ''hello''\<rparr>)))
     = messages awaiting_validation @
         [\<lparr>role = user, content = utf16 ''hello'', image = None, agent = None,
           resultImage = None\<rparr>,
          \<lparr>role = system,
           content = utf16 ''Sorry, there was an error processing your request. Please try again.'',
           image = None, agent = None, resultImage = None\<rparr>]"
    using hello_turn(1)
    apply (simp add: handleSendMessage_def handleSendMessage_request_def sel truthy_opt_def
                  hello_turn(2) sendChatMessage_def handleSendMessage_settle_def
                  handleSendMessage_begin_def newMessage_def)
    apply (simp add: offline_def)
    done
  from a b c show ?thesis by blast
qed

lemma handleSendMessage_settled:
  assumes "\<not> handleSendMessage_returns st"
  shows "handleSendMessage w st =
           (st\<lparr>messages := messages st @
                 [newMessage st,
                  (case fst (handleSendMessage_request w (input st) (selectedImage st)) of
                     Inr res \<Rightarrow>
                       \<lparr>role = assistant, content = ChatResponse.response res, image = None,
                        agent = Some (ChatResponse.agent res), resultImage = result_image res\<rparr>
                   | Inl e \<Rightarrow>
                       \<lparr>role = system,
                        content = utf16 ''Sorry, there was an error processing your request. Please try again.'',
                        image = None, agent = None, resultImage = None\<rparr>)],
               input := [], selectedImage := None, isProcessing := False\<rparr>,
            snd (handleSendMessage_request w (input st) (selectedImage st)))"
  using assms
  by (simp add: handleSendMessage_def split_beta handleSendMessage_settle_def
                handleSendMessage_begin_def split: sum.splits)

lemma sendChatMessage_outcome:
  "fst (sendChatMessage w msg) =
     (case fetch_chat w (hd (snd (sendChatMessage w msg))) of
        Inl e \<Rightarrow> Inl e
      | Inr r \<Rightarrow> if ok r then payload r else Inl (Error (utf16 ''Failed to send message'')))"
  by (simp only: sendChatMessage_calls list.sel)
     (simp add: sendChatMessage_def Let_def split: sum.splits)

lemma uploadImage_outcome:
  "fst (uploadImage w file txt) =
     (case fetch_chat w (hd (snd (uploadImage w file txt))) of
        Inl e \<Rightarrow> Inl e
      | Inr r \<Rightarrow>
          if \<not> ok r then Inl (Error (utf16 ''Failed to upload image''))
          else (case payload r of
                  Inl e \<Rightarrow> Inl e
                | Inr data \<Rightarrow>
                    Inr (data\<lparr>result_image :=
                           map_option (\<lambda>img. if img \<noteq> [] \<and> \<not> startsWith img (utf16 ''http'')
                                             then API_BASE_URL w @ img else img)
                             (result_image data)\<rparr>)))"
  by (simp only: uploadImage_calls list.sel)
     (simp add: uploadImage_def Let_def truthy_def split: sum.splits option.splits)

lemma handleSendMessage_request_cases:
  "handleSendMessage_request w inp sel =
     (case sel of
        None \<Rightarrow> sendChatMessage w (trim inp)
      | Some url \<Rightarrow>
          if url = [] then sendChatMessage w (trim inp)
          else (case fetch_blob w (url, None) of
                  Inl e \<Rightarrow> (Inl e, [(url, None)])
                | Inr r \<Rightarrow>
                    (case payload r of
                       Inl e \<Rightarrow> (Inl e, [(url, None)])
                     | Inr imageFile \<Rightarrow>
                         (fst (uploadImage w \<lparr>bits = imageFile, name = utf16 ''image.jpg''\<rparr> (trim inp)),
                          (url, None)
                          # snd (uploadImage w \<lparr>bits = imageFile, name = utf16 ''image.jpg''\<rparr>
                                   (trim inp))))))"
  by (simp add: handleSendMessage_request_def truthy_opt_def truthy_def split_beta
           split: option.splits sum.splits)

text \<open>
  C2, amended: \<open>handleSendMessage\<close> takes no account of the messages, so none of an
  outstanding validation: put on another history, it appends the same entries and makes
  the same calls. It refuses a turn, silently, only when the trimmed input is empty and no
  image is selected, or while \<open>isProcessing\<close> is set. Any other turn appends the user's
  message, empties the input and the selected image, and makes its request: without an image
  one POST of the trimmed input to \<open>/api/chat\<close>; with an image a read of the data URL and,
  only when that read gives a blob, one POST to \<open>/api/upload\<close>. Then it appends one entry:
  when the request gives a \<open>ChatResponse\<close>, an assistant entry with its \<open>response\<close>,
  \<open>agent\<close> and \<open>result_image\<close>; when a step of the request fails, the generic system
  note, the only error the handler shows.
\<close>

theorem handleSendMessage_ungated:
  "handleSendMessage w (st\<lparr>messages := ms\<rparr>) =
     (fst (handleSendMessage w st)
        \<lparr>messages := ms @ drop (length (messages st)) (messages (fst (handleSendMessage w st)))\<rparr>,
      snd (handleSendMessage w st))
   \<and> (if (\<not> truthy (trim (input st)) \<and> \<not> truthy_opt (selectedImage st)) \<or> isProcessing st
      then handleSendMessage w st = (st, [])
      else handleSendMessage w st =
             (st\<lparr>messages := messages st @
                   [\<lparr>role = user, content = trim (input st),
                     image = (if truthy_opt (selectedImage st) then selectedImage st else None),
                     agent = None, resultImage = None\<rparr>,
                    (case fst (handleSendMessage_request w (input st) (selectedImage st)) of
                       Inr res \<Rightarrow>
                         \<lparr>role = assistant, content = ChatResponse.response res, image = None,
                          agent = Some (ChatResponse.agent res), resultImage = result_image res\<rparr>
                     | Inl e \<Rightarrow>
                         \<lparr>role = system,
                          content = utf16 ''Sorry, there was an error processing your request. Please try again.'',
                          image = None, agent = None, resultImage = None\<rparr>)],
                 input := [], selectedImage := None, isProcessing := False\<rparr>,
              snd (handleSendMessage_request w (input st) (selectedImage st))))
   \<and> handleSendMessage_request w inp sel =
       (case sel of
          None \<Rightarrow> sendChatMessage w (trim inp)
        | Some url \<Rightarrow>
            if url = [] then sendChatMessage w (trim inp)
            else (case fetch_blob w (url, None) of
                    Inl e \<Rightarrow> (Inl e, [(url, None)])
                  | Inr r \<Rightarrow>
                      (case payload r of
                         Inl e \<Rightarrow> (Inl e, [(url, None)])
                       | Inr imageFile \<Rightarrow>
                           (fst (uploadImage w \<lparr>bits = imageFile, name = utf16 ''image.jpg''\<rparr>
                                   (trim inp)),
                            (url, None)
                            # snd (uploadImage w \<lparr>bits = imageFile, name = utf16 ''image.jpg''\<rparr>
                                     (trim inp))))))
   \<and> snd (sendChatMessage w msg) =
       [(API_BASE_URL w @ utf16 ''/api/chat'',
         Some \<lparr>method' = Some (utf16 ''POST''),
               headers = [(utf16 ''Content-Type'', utf16 ''application/json'')],
               body = Some (JSON_stringify (JObject
                        [(utf16 ''query'', JString msg),
                         (utf16 ''conversation_history'', JArray [])])),
               credentials = Some (utf16 ''include'')\<rparr>)]
   \<and> fst (sendChatMessage w msg) =
       (case fetch_chat w (hd (snd (sendChatMessage w msg))) of
          Inl e \<Rightarrow> Inl e
        | Inr r \<Rightarrow> if ok r then payload r else Inl (Error (utf16 ''Failed to send message'')))
   \<and> snd (uploadImage w file txt) =
       [(API_BASE_URL w @ utf16 ''/api/upload'',
         Some \<lparr>method' = Some (utf16 ''POST''), headers = [],
               body = Some (FormData [(utf16 ''image'', FileValue file),
                                      (utf16 ''text'', StringValue txt)]),
               credentials = Some (utf16 ''include'')\<rparr>)]
   \<and> fst (uploadImage w file txt) =
       (case fetch_chat w (hd (snd (uploadImage w file txt))) of
          Inl e \<Rightarrow> Inl e
        | Inr r \<Rightarrow>
            if \<not> ok r then Inl (Error (utf16 ''Failed to upload image''))
            else (case payload r of
                    Inl e \<Rightarrow> Inl e
                  | Inr data \<Rightarrow>
                      Inr (data\<lparr>result_image :=
                             map_option (\<lambda>img. if img \<noteq> [] \<and> \<not> startsWith img (utf16 ''http'')
                                               then API_BASE_URL w @ img else img)
                               (result_image data)\<rparr>)))"
proof -
  have b: "if (\<not> truthy (trim (input st)) \<and> \<not> truthy_opt (selectedImage st)) \<or> isProcessing st
      then handleSendMessage w st = (st, [])
      else handleSendMessage w st =
             (st\<lparr>messages := messages st @
                   [\<lparr>role = user, content = trim (input st),
                     image = (if truthy_opt (selectedImage st) then selectedImage st else None),
                     agent = None, resultImage = None\<rparr>,
                    (case fst (handleSendMessage_request w (input st) (selectedImage st)) of
                       Inr res \<Rightarrow>
                         \<lparr>role = assistant, content = ChatResponse.response res, image = None,
                          agent = Some (ChatResponse.agent res), resultImage = result_image res\<rparr>
                     | Inl e \<Rightarrow>
                         \<lparr>role = system,
                          content = utf16 ''Sorry, there was an error processing your request. Please try again.'',
                          image = None, agent = None, resultImage = None\<rparr>)],
                 input := [], selectedImage := None, isProcessing := False\<rparr>,
              snd (handleSendMessage_request w (input st) (selectedImage st)))"
  proof (cases "handleSendMessage_returns st")
    case True
    then show ?thesis
      by (simp add: handleSendMessage_def handleSendMessage_returns_def)
  next
    case False
    from False
    have cond: "\<not> ((\<not> truthy (trim (input st)) \<and> \<not> truthy_opt (selectedImage st))
                   \<or> isProcessing st)"
      by (simp add: handleSendMessage_returns_def)
    show ?thesis
      by (simp only: if_not_P [OF cond] handleSendMessage_settled [OF False] newMessage_def)
  qed
  from handleSendMessage_history_blind [of w ms st] b
       handleSendMessage_request_cases [of w inp sel]
       sendChatMessage_calls [of w msg] sendChatMessage_outcome [of w msg]
       uploadImage_calls [of w "file" "txt"] uploadImage_outcome [of w "file" "txt"]
  show ?thesis by (intro conjI)
qed

theorem handleSendMessage_ungated_witness:
  "snd (handleSendMessage (serving None hello_reply validated_reply)
          (awaiting_validation\<lparr>input := utf16 ''hello''\<rparr>)) =
     [(utf16 ''http://localhost:8000/api/chat'',
       Some \<lparr>method' = Some (utf16 ''POST''),
             headers = [(utf16 ''Content-Type'', utf16 ''application/json'')],
             body = Some (JSON_stringify (JObject
                      [(utf16 ''query'', JString (utf16 ''hello'')),
                       (utf16 ''conversation_history'', JArray [])])),
             credentials = Some (utf16 ''include'')\<rparr>)]"
proof -
  let ?w = "serving None hello_reply validated_reply"
  let ?st = "awaiting_validation\<lparr>input := utf16 ''hello''\<rparr>"
  have i: "input ?st = utf16 ''hello''" "selectedImage ?st = None"
    by (simp_all add: awaiting_validation_def)
  have cond: "\<not> ((\<not> truthy (trim (input ?st)) \<and> \<not> truthy_opt (selectedImage ?st))
                 \<or> isProcessing ?st)"
    using hello_turn(1) by (simp add: handleSendMessage_returns_def)
  note t = handleSendMessage_ungated
             [where w = ?w and st = ?st and inp = "utf16 ''hello''" and sel = None
                and msg = "utf16 ''hello''"]
  from t have "snd (handleSendMessage ?w ?st)
      = snd (handleSendMessage_request ?w (input ?st) (selectedImage ?st))"
    by (simp only: if_not_P [OF cond] snd_conv)
  also from t have "\<dots> = snd (sendChatMessage ?w (utf16 ''hello''))"
    by (simp only: i option.case hello_turn(2))
  also from t have "\<dots> =
       [(API_BASE_URL ?w @ utf16 ''/api/chat'',
         Some \<lparr>method' = Some (utf16 ''POST''),
               headers = [(utf16 ''Content-Type'', utf16 ''application/json'')],
               body = Some (JSON_stringify (JObject
                        [(utf16 ''query'', JString (utf16 ''hello'')),
                         (utf16 ''conversation_history'', JArray [])])),
               credentials = Some (utf16 ''include'')\<rparr>)]"
    by blast
  finally show ?thesis
    by (simp add: utf16_def)
qed

section \<open>Vision agents set the validation flag\<close>

lemma range_vision_agent: "range vision_agent = {BrainTumor, ChestXray, SkinLesion}"
proof
  show "range vision_agent \<subseteq> {BrainTumor, ChestXray, SkinLesion}"
  proof
    fix a assume "a \<in> range vision_agent"
    then obtain m where "a = vision_agent m" by blast
    then show "a \<in> {BrainTumor, ChestXray, SkinLesion}" by (cases m) simp_all
  qed
  have "vision_agent BrainMRI \<in> range vision_agent"
       "vision_agent ChestXrayFilm \<in> range vision_agent"
       "vision_agent SkinLesionPhoto \<in> range vision_agent"
    by blast+
  then show "{BrainTumor, ChestXray, SkinLesion} \<subseteq> range vision_agent" by simp
qed

lemma vision_handle_flag: "requiresValidation (vision_handle cfg m img) = Some True"
  by (simp add: vision_handle_def Let_def split: sum.splits option.splits)

lemma vision_handle_agent: "originatingAgent (vision_handle cfg m img) = vision_agent m"
  by (simp add: vision_handle_def Let_def split: sum.splits option.splits)

lemma vision_handle_status:
  "(resultStatus (vision_handle cfg m img) = StatusOk) =
     (bytes img \<noteq> [] \<and> decodable cfg img
      \<and> (\<exists>found c. infer cfg img = Inr found \<and> score found = Some c \<and> 0 \<le> c \<and> c \<le> 1))"
  by (auto simp: vision_handle_def Let_def split: sum.splits option.splits)

lemma gate_admit_flagged:
  assumes "requiresValidation r = Some True"
  shows "gate_admit now tag r h =
           (if resultStatus r = StatusOk
            then \<lparr>history = h,
                  pendingValidation =
                    Some \<lparr>held = r, producer = originatingAgent r, created = now\<rparr>\<rparr>
            else \<lparr>history = h, pendingValidation = None\<rparr>)"
  using assms by (cases "resultStatus r") (simp_all add: gate_admit_def)

text \<open>
  C3: the three vision agents are BrainTumor, ChestXray and SkinLesion, and every result
  one of them produces, a finding or an error, has \<open>requiresValidation = true\<close>. A
  diagnostic output, that is a result with status ok (the image is not empty and decodes,
  and the inference gives a score in [0,1]), is held by the gate: the session is \<open>PENDING\<close>
  and nothing is appended to the history. An error result, as for a corrupt upload, leaves
  the gate in \<open>NONE\<close> and is not appended either. So no result of a vision agent becomes
  final without the \<open>PENDING\<close> state.
\<close>

theorem vision_result_requires_validation:
  "range vision_agent = {BrainTumor, ChestXray, SkinLesion}
   \<and> originatingAgent (vision_handle cfg m img) = vision_agent m
   \<and> requiresValidation (vision_handle cfg m img) = Some True
   \<and> (resultStatus (vision_handle cfg m img) = StatusOk) =
       (bytes img \<noteq> [] \<and> decodable cfg img
        \<and> (\<exists>found c. infer cfg img = Inr found \<and> score found = Some c \<and> 0 \<le> c \<and> c \<le> 1))
   \<and> gate_admit now tag (vision_handle cfg m img) h =
       (if resultStatus (vision_handle cfg m img) = StatusOk
        then \<lparr>history = h,
              pendingValidation =
                Some \<lparr>held = vision_handle cfg m img, producer = vision_agent m, created = now\<rparr>\<rparr>
        else \<lparr>history = h, pendingValidation = None\<rparr>)
   \<and> history (gate_admit now tag (vision_handle cfg m img) h) = h
   \<and> gate_state (gate_admit now tag (vision_handle cfg m img) h) =
       (if resultStatus (vision_handle cfg m img) = StatusOk then PENDING else NONE)"
proof -
  let ?r = "vision_handle cfg m img"
  have g: "gate_admit now tag ?r h =
       (if resultStatus ?r = StatusOk
        then \<lparr>history = h,
              pendingValidation = Some \<lparr>held = ?r, producer = vision_agent m, created = now\<rparr>\<rparr>
        else \<lparr>history = h, pendingValidation = None\<rparr>)"
    using gate_admit_flagged [OF vision_handle_flag, of now tag cfg m img h]
    by (simp add: vision_handle_agent)
  have "history (gate_admit now tag ?r h) = h"
    unfolding g by simp
  moreover have "gate_state (gate_admit now tag ?r h) =
       (if resultStatus ?r = StatusOk then PENDING else NONE)"
    unfolding g by (simp add: gate_state_def)
  ultimately show ?thesis
    using range_vision_agent vision_handle_agent vision_handle_flag vision_handle_status g
    by blast
qed

theorem vision_result_requires_validation_witness:
  "gate_state (gate_admit 7 (utf16 ''BRAIN_TUMOR_AGENT'') (vision_handle clinic BrainMRI png) [])
     = PENDING
   \<and> gate_state (gate_admit 7 (utf16 ''BRAIN_TUMOR_AGENT'')
                   (vision_handle clinic BrainMRI \<lparr>bytes = [], mime = utf16 ''image/png''\<rparr>) [])
     = NONE"
proof -
  have ok: "resultStatus (vision_handle clinic BrainMRI png) = StatusOk"
    by (simp add: vision_handle_def clinic_def png_def)
  have bad: "resultStatus (vision_handle clinic BrainMRI \<lparr>bytes = [], mime = utf16 ''image/png''\<rparr>)
               = StatusError"
    by (simp add: vision_handle_def clinic_def)
  from vision_result_requires_validation [of clinic BrainMRI png 7 "utf16 ''BRAIN_TUMOR_AGENT''" "[]"]
  have a: "gate_state (gate_admit 7 (utf16 ''BRAIN_TUMOR_AGENT'') (vision_handle clinic BrainMRI png) [])
      = (if resultStatus (vision_handle clinic BrainMRI png) = StatusOk then PENDING else NONE)"
    by blast
  from vision_result_requires_validation
         [of clinic BrainMRI "\<lparr>bytes = [], mime = utf16 ''image/png''\<rparr>" 7
             "utf16 ''BRAIN_TUMOR_AGENT''" "[]"]
  have b: "gate_state (gate_admit 7 (utf16 ''BRAIN_TUMOR_AGENT'')
                   (vision_handle clinic BrainMRI \<lparr>bytes = [], mime = utf16 ''image/png''\<rparr>) [])
      = (if resultStatus (vision_handle clinic BrainMRI \<lparr>bytes = [], mime = utf16 ''image/png''\<rparr>)
            = StatusOk then PENDING else NONE)"
    by blast
  show ?thesis unfolding a b ok bad by simp
qed

section \<open>The history over a run of events\<close>

lemma handleSendMessage_settle_appends:
  "\<exists>entry. messages (handleSendMessage_settle outcome st) = messages st @ [entry]"
  by (cases outcome) (simp_all add: handleSendMessage_settle_def)

lemma handleValidation_settle_appends:
  "\<exists>entry. messages (handleValidation_settle outcome st) = messages st @ [entry]"
  by (cases outcome) (simp_all add: handleValidation_settle_def)

lemma settled_appends_one:
  assumes "k < length (pending q)"
  shows "\<exists>entry. messages (chat (step (Settled k w) q)) = messages (chat q) @ [entry]"
proof (cases "pending q ! k")
  case (SendPending inp sel)
  with assms show ?thesis
    using handleSendMessage_settle_appends by simp
next
  case (ValidationPending validation comments)
  with assms show ?thesis
    using handleValidation_settle_appends by simp
qed

lemma step_appends:
  assumes "e \<noteq> ClearClicked"
  shows "prefix (messages (chat p)) (messages (chat (step e p)))"
proof (cases e)
  case (Settled k w)
  show ?thesis
  proof (cases "k < length (pending p)")
    case True
    from settled_appends_one [OF True, of w] show ?thesis
      unfolding Settled by (auto simp del: step.simps)
  next
    case False
    then show ?thesis unfolding Settled by simp
  qed
qed (use assms in \<open>simp_all add: handleSendMessage_begin_def handleValidation_begin_def\<close>)

lemma run_appends:
  "ClearClicked \<notin> set es \<Longrightarrow> prefix (messages (chat p)) (messages (chat (run es p)))"
proof (induction es arbitrary: p)
  case Nil
  show ?case by simp
next
  case (Cons e es)
  from Cons.prems have "e \<noteq> ClearClicked" and rest: "ClearClicked \<notin> set es" by auto
  then have "prefix (messages (chat p)) (messages (chat (step e p)))"
    by (simp add: step_appends)
  moreover have "prefix (messages (chat (step e p))) (messages (chat (run es (step e p))))"
    by (rule Cons.IH [OF rest])
  ultimately show ?case by (simp del: step.simps)
qed

lemma reply_follows_turn:
  assumes accepted: "\<not> handleSendMessage_returns (chat p)"
    and no_clear: "ClearClicked \<notin> set es"
    and k: "k < length (pending (run es (step SendClicked p)))"
  shows "\<exists>between reply.
           messages (chat (step (Settled k w) (run es (step SendClicked p))))
             = messages (chat p) @ newMessage (chat p) # between @ [reply]"
proof -
  let ?q = "run es (step SendClicked p)"
  have "messages (chat (step SendClicked p)) = messages (chat p) @ [newMessage (chat p)]"
    using accepted by (simp add: handleSendMessage_begin_def)
  with run_appends [OF no_clear, of "step SendClicked p"]
  have "prefix (messages (chat p) @ [newMessage (chat p)]) (messages (chat ?q))"
    by simp
  then obtain between where
    "messages (chat ?q) = (messages (chat p) @ [newMessage (chat p)]) @ between"
    by (auto simp: prefix_def)
  moreover from settled_appends_one [OF k, of w] obtain reply where
    "messages (chat (step (Settled k w) ?q)) = messages (chat ?q) @ [reply]"
    by blast
  ultimately show ?thesis by (simp del: step.simps)
qed

lemma begin_messages:
  "messages (handleSendMessage_begin st) = messages st @ [newMessage st]"
  "messages (handleValidation_begin st) = messages st"
  by (simp_all add: handleSendMessage_begin_def handleValidation_begin_def)

lemma settle_messages:
  "messages (handleSendMessage_settle (Inr r) st) =
     messages st @ [\<lparr>role = assistant, content = ChatResponse.response r, image = None,
                     agent = Some (ChatResponse.agent r), resultImage = result_image r\<rparr>]"
  "messages (handleValidation_settle (Inr v) st) =
     messages st @ [\<lparr>role = assistant, content = ValidationResponse.response v, image = None,
                     agent = Some (utf16 ''HUMAN_VALIDATED''), resultImage = None\<rparr>]"
  by (simp_all add: handleSendMessage_settle_def handleValidation_settle_def)

lemma typed_hello_chat:
  "messages (chat typed_hello) = messages awaiting_validation"
  "input (chat typed_hello) = utf16 ''hello''"
  "selectedImage (chat typed_hello) = None"
  "newMessage (chat typed_hello) =
     \<lparr>role = user, content = utf16 ''hello'', image = None, agent = None, resultImage = None\<rparr>"
proof -
  show "messages (chat typed_hello) = messages awaiting_validation"
    by (simp add: typed_hello_def)
  show i: "input (chat typed_hello) = utf16 ''hello''"
    by (simp add: typed_hello_def)
  have "selectedImage awaiting_validation = None"
    by (simp add: awaiting_validation_def)
  then show s: "selectedImage (chat typed_hello) = None"
    by (simp add: typed_hello_def)
  show "newMessage (chat typed_hello) =
     \<lparr>role = user, content = utf16 ''hello'', image = None, agent = None, resultImage = None\<rparr>"
    unfolding newMessage_def i s by (simp add: hello_turn(2) truthy_opt_def)
qed

lemma typed_hello_two_calls:
  "run [SendClicked, ValidationClicked 2 Yes (utf16 ''ok'')] typed_hello
     = \<lparr>chat = handleValidation_begin (handleSendMessage_begin (chat typed_hello)),
        pending = [SendPending (utf16 ''hello'') None,
                   ValidationPending (utf16 ''yes'') (utf16 ''ok'')]\<rparr>"
proof -
  have accepted: "\<not> handleSendMessage_returns (chat typed_hello)"
    by (simp add: typed_hello_def hello_turn(1))
  have "pending typed_hello = []"
    by (simp add: typed_hello_def)
  with accepted have one: "step SendClicked typed_hello
      = \<lparr>chat = handleSendMessage_begin (chat typed_hello),
         pending = [SendPending (utf16 ''hello'') None]\<rparr>"
    by (simp add: typed_hello_chat)
  have "2 < length (messages (handleSendMessage_begin (chat typed_hello)))"
    "asks_validation (messages (handleSendMessage_begin (chat typed_hello)) ! 2)"
    using asks_awaiting by (simp_all add: begin_messages typed_hello_chat(1) nth_append)
  then have "step (ValidationClicked 2 Yes (utf16 ''ok''))
        \<lparr>chat = handleSendMessage_begin (chat typed_hello),
         pending = [SendPending (utf16 ''hello'') None]\<rparr>
      = \<lparr>chat = handleValidation_begin (handleSendMessage_begin (chat typed_hello)),
         pending = [SendPending (utf16 ''hello'') None,
                    ValidationPending (utf16 ''yes'') (utf16 ''ok'')]\<rparr>"
    by simp
  with one show ?thesis by (simp del: step.simps)
qed

lemma settle_both:
  "run [Settled 1 w, Settled 0 w]
     \<lparr>chat = c, pending = [SendPending inp sel, ValidationPending validation comments]\<rparr>
   = \<lparr>chat = handleSendMessage_settle (fst (handleSendMessage_request w inp sel))
               (handleValidation_settle (fst (sendValidation w validation comments)) c),
      pending = []\<rparr>"
  by simp

lemma typed_hello_interleaved:
  "messages (chat (run [SendClicked, ValidationClicked 2 Yes (utf16 ''ok''),
                        Settled 1 (serving None hello_reply validated_reply),
                        Settled 0 (serving None hello_reply validated_reply)] typed_hello))
     = messages awaiting_validation @
         [\<lparr>role = user, content = utf16 ''hello'', image = None, agent = None,
           resultImage = None\<rparr>,
          \<lparr>role = assistant, content = utf16 ''Brain MRI: tumor detected.'', image = None,
           agent = Some (utf16 ''HUMAN_VALIDATED''), resultImage = None\<rparr>,
          \<lparr>role = assistant, content = utf16 ''Hello!'', image = None,
           agent = Some (utf16 ''CONVERSATION_AGENT''), resultImage = None\<rparr>]"
proof -
  let ?w = "serving None hello_reply validated_reply"
  have v: "fst (sendValidation ?w (utf16 ''yes'') (utf16 ''ok'')) = Inr validated_reply"
    by (simp add: sendValidation_def serving_def)
  have s: "fst (handleSendMessage_request ?w (utf16 ''hello'') None) = Inr hello_reply"
    by (simp add: handleSendMessage_request_def truthy_opt_def sendChatMessage_def serving_def)
  have "run [SendClicked, ValidationClicked 2 Yes (utf16 ''ok''), Settled 1 ?w, Settled 0 ?w]
          typed_hello
        = run [Settled 1 ?w, Settled 0 ?w]
            (run [SendClicked, ValidationClicked 2 Yes (utf16 ''ok'')] typed_hello)"
    by (simp del: step.simps)
  also have "\<dots> = \<lparr>chat = handleSendMessage_settle (Inr hello_reply)
       (handleValidation_settle (Inr validated_reply)
          (handleValidation_begin (handleSendMessage_begin (chat typed_hello)))),
       pending = []\<rparr>"
    unfolding typed_hello_two_calls settle_both v s ..
  finally show ?thesis
    by (simp add: settle_messages begin_messages typed_hello_chat hello_reply_def
                  validated_reply_def)
qed

lemma upload_answered:
  "fst (handleSendMessage_request (serving None tumor_reply validated_reply) []
          (Some (utf16 ''data:image/png;base64,iVBORw''))) = Inr tumor_reply"
proof -
  have t: "truthy_opt (Some (utf16 ''data:image/png;base64,iVBORw''))"
    by (simp add: truthy_opt_def truthy_def utf16_def)
  show ?thesis
    unfolding handleSendMessage_request_def
    by (simp add: t uploadImage_def serving_def tumor_reply_def split_beta)
qed

lemma upload_chat:
  "handleSendMessage_settle (Inr tumor_reply)
     (handleSendMessage_begin
        (Chat_initial\<lparr>selectedImage := Some (utf16 ''data:image/png;base64,iVBORw'')\<rparr>))
   = awaiting_validation"
proof -
  have t: "truthy_opt (Some (utf16 ''data:image/png;base64,iVBORw''))" "trim [] = []"
    by (simp_all add: truthy_opt_def truthy_def utf16_def trim_def)
  show ?thesis
    by (simp add: handleSendMessage_settle_def handleSendMessage_begin_def newMessage_def
                  Chat_initial_def t awaiting_validation_def tumor_reply_def)
qed

lemma awaiting_validation_reached:
  "run [ImagePicked (utf16 ''data:image/png;base64,iVBORw''), SendClicked,
        Settled 0 (serving None tumor_reply validated_reply), Typed (utf16 ''hello'')]
     Page_initial = typed_hello"
proof -
  let ?url = "utf16 ''data:image/png;base64,iVBORw''"
  let ?picked = "Chat_initial\<lparr>selectedImage := Some ?url\<rparr>"
  have t: "truthy_opt (Some ?url)"
    by (simp add: truthy_opt_def truthy_def utf16_def)
  have accepted: "\<not> handleSendMessage_returns ?picked"
    by (simp add: handleSendMessage_returns_def t Chat_initial_def)
  have i: "input ?picked = []" "selectedImage ?picked = Some ?url"
    by (simp_all add: Chat_initial_def)
  have "run [ImagePicked ?url, SendClicked] Page_initial
      = \<lparr>chat = handleSendMessage_begin ?picked, pending = [SendPending [] (Some ?url)]\<rparr>"
    using accepted by (simp add: Page_initial_def i)
  then have "run [ImagePicked ?url, SendClicked,
                  Settled 0 (serving None tumor_reply validated_reply)] Page_initial
      = \<lparr>chat = handleSendMessage_settle (Inr tumor_reply) (handleSendMessage_begin ?picked),
         pending = []\<rparr>"
    by (simp add: upload_answered)
  then show ?thesis
    unfolding upload_chat by (simp add: typed_hello_def)
qed

text \<open>
  C5: over any run of events without a clear, the history only grows at its end: what was
  there stays, in place and in order. A clear alone replaces it, by the one system greeting.
  The user's message of an accepted send is appended when the send starts, and whatever a
  call that settles later appends, the reply of that send with it, comes after it; one whole
  call of \<open>handleSendMessage\<close> appends the user's turn and then its reply, of role
  assistant or system.
\<close>

theorem history_append_only:
  "(ClearClicked \<notin> set es \<longrightarrow> prefix (messages (chat p)) (messages (chat (run es p))))
   \<and> messages (chat (step ClearClicked p)) =
       [\<lparr>role = system, content = cleared_content, image = None, agent = None,
         resultImage = None\<rparr>]
   \<and> (\<not> handleSendMessage_returns (chat p) \<and> ClearClicked \<notin> set es
        \<and> k < length (pending (run es (step SendClicked p)))
       \<longrightarrow> (\<exists>between reply.
              messages (chat (step (Settled k w) (run es (step SendClicked p))))
                = messages (chat p) @ newMessage (chat p) # between @ [reply]))
   \<and> (\<not> handleSendMessage_returns st
       \<longrightarrow> (\<exists>reply. messages (fst (handleSendMessage w st)) = messages st @ [newMessage st, reply]
                  \<and> role (newMessage st) = user \<and> role reply \<noteq> user))"
proof -
  have a: "ClearClicked \<notin> set es \<longrightarrow> prefix (messages (chat p)) (messages (chat (run es p)))"
    by (simp add: run_appends)
  have b: "messages (chat (step ClearClicked p)) =
       [\<lparr>role = system, content = cleared_content, image = None, agent = None,
         resultImage = None\<rparr>]"
    by (simp add: clearChat_def)
  have c: "\<not> handleSendMessage_returns (chat p) \<and> ClearClicked \<notin> set es
        \<and> k < length (pending (run es (step SendClicked p)))
       \<longrightarrow> (\<exists>between reply.
              messages (chat (step (Settled k w) (run es (step SendClicked p))))
                = messages (chat p) @ newMessage (chat p) # between @ [reply])"
    using reply_follows_turn by blast
  have d: "\<not> handleSendMessage_returns st
       \<longrightarrow> (\<exists>reply. messages (fst (handleSendMessage w st)) = messages st @ [newMessage st, reply]
                  \<and> role (newMessage st) = user \<and> role reply \<noteq> user)"
  proof
    assume "\<not> handleSendMessage_returns st"
    from handleSendMessage_accepted(2) [OF this, of w]
    show "\<exists>reply. messages (fst (handleSendMessage w st)) = messages st @ [newMessage st, reply]
                  \<and> role (newMessage st) = user \<and> role reply \<noteq> user"
      by (auto simp: newMessage_def)
  qed
  from a b c d show ?thesis by blast
qed

theorem history_append_only_witness:
  "\<not> handleSendMessage_returns (chat typed_hello)
   \<and> ClearClicked \<notin> set [ValidationClicked 2 Yes (utf16 ''ok''),
                            Settled 1 (serving None hello_reply validated_reply)]
   \<and> 0 < length (pending (run [ValidationClicked 2 Yes (utf16 ''ok''),
                                 Settled 1 (serving None hello_reply validated_reply)]
                            (step SendClicked typed_hello)))
   \<and> prefix (messages (chat typed_hello))
        (messages (chat (run [ValidationClicked 2 Yes (utf16 ''ok''),
                              Settled 1 (serving None hello_reply validated_reply)] typed_hello)))
   \<and> (\<exists>between reply.
         messages (chat (step (Settled 0 (serving None hello_reply validated_reply))
                      (run [ValidationClicked 2 Yes (utf16 ''ok''),
                            Settled 1 (serving None hello_reply validated_reply)]
                         (step SendClicked typed_hello))))
           = messages (chat typed_hello) @ newMessage (chat typed_hello) # between @ [reply])
   \<and> (\<exists>reply. messages (fst (handleSendMessage (serving None hello_reply validated_reply)
                                   (chat typed_hello)))
                  = messages (chat typed_hello) @ [newMessage (chat typed_hello), reply]
                \<and> role (newMessage (chat typed_hello)) = user \<and> role reply \<noteq> user)"
proof -
  let ?w = "serving None hello_reply validated_reply"
  let ?es = "[ValidationClicked 2 Yes (utf16 ''ok''), Settled 1 ?w]"
  have accepted: "\<not> handleSendMessage_returns (chat typed_hello)"
    by (simp add: typed_hello_def hello_turn(1))
  have no_clear: "ClearClicked \<notin> set ?es"
    by simp
  have "run ?es (step SendClicked typed_hello)
          = step (Settled 1 ?w) (run [SendClicked, ValidationClicked 2 Yes (utf16 ''ok'')] typed_hello)"
    by (simp del: step.simps)
  then have "pending (run ?es (step SendClicked typed_hello)) = [SendPending (utf16 ''hello'') None]"
    unfolding typed_hello_two_calls by simp
  then have k: "0 < length (pending (run ?es (step SendClicked typed_hello)))"
    by simp
  from history_append_only [where es = ?es and p = typed_hello and k = 0 and w = ?w
                                and st = "chat typed_hello"]
       accepted no_clear k
  show ?thesis by blast
qed

text \<open>
  C4 does not hold of the client. \<open>handleSendMessage\<close> tests \<open>isProcessing\<close> before it
  starts; \<open>handleValidation\<close> sets the flag and never tests it, and the validation buttons
  stay enabled. The run below starts from the first render: an MRI is uploaded and answered
  with a result that asks for validation, then the user types \<open>hello\<close>. From there a send
  and then a click on Yes leave two calls in flight, and when the validation settles before
  the chat call, the entries of the two calls alternate in the history.
\<close>

theorem validation_not_serialized:
  "run [ImagePicked (utf16 ''data:image/png;base64,iVBORw''), SendClicked,
        Settled 0 (serving None tumor_reply validated_reply), Typed (utf16 ''hello'')]
     Page_initial = typed_hello
   \<and> pending (run [SendClicked, ValidationClicked 2 Yes (utf16 ''ok'')] typed_hello)
     = [SendPending (utf16 ''hello'') None, ValidationPending (utf16 ''yes'') (utf16 ''ok'')]
   \<and> messages (chat (run [SendClicked, ValidationClicked 2 Yes (utf16 ''ok''),
                          Settled 1 (serving None hello_reply validated_reply),
                          Settled 0 (serving None hello_reply validated_reply)] typed_hello))
     = messages awaiting_validation @
         [\<lparr>role = user, content = utf16 ''hello'', image = None, agent = None,
           resultImage = None\<rparr>,
          \<lparr>role = assistant, content = utf16 ''Brain MRI: tumor detected.'', image = None,
           agent = Some (utf16 ''HUMAN_VALIDATED''), resultImage = None\<rparr>,
          \<lparr>role = assistant, content = utf16 ''Hello!'', image = None,
           agent = Some (utf16 ''CONVERSATION_AGENT''), resultImage = None\<rparr>]"
proof -
  have "pending (run [SendClicked, ValidationClicked 2 Yes (utf16 ''ok'')] typed_hello)
     = [SendPending (utf16 ''hello'') None, ValidationPending (utf16 ''yes'') (utf16 ''ok'')]"
    unfolding typed_hello_two_calls by simp
  with awaiting_validation_reached typed_hello_interleaved show ?thesis by blast
qed

lemma run_append: "run (es @ es') p = run es' (run es p)"
  by (induction es arbitrary: p) simp_all

lemma busy_page_reached:
  "run [SendClicked, ValidationClicked 2 Yes (utf16 ''ok''),
        Settled 1 (serving None hello_reply validated_reply), Typed (utf16 ''again'')] typed_hello
     = busy_page"
proof -
  let ?w = "serving None hello_reply validated_reply"
  let ?c = "handleValidation_begin (handleSendMessage_begin (chat typed_hello))"
  have v: "fst (sendValidation ?w (utf16 ''yes'') (utf16 ''ok'')) = Inr validated_reply"
    by (simp add: sendValidation_def serving_def)
  have "run [SendClicked, ValidationClicked 2 Yes (utf16 ''ok''), Settled 1 ?w,
             Typed (utf16 ''again'')] typed_hello
      = run [Settled 1 ?w, Typed (utf16 ''again'')]
          (run [SendClicked, ValidationClicked 2 Yes (utf16 ''ok'')] typed_hello)"
    by (simp del: step.simps)
  also have "\<dots> = \<lparr>chat = (handleValidation_settle (Inr validated_reply) ?c)
                              \<lparr>input := utf16 ''again''\<rparr>,
                     pending = [SendPending (utf16 ''hello'') None]\<rparr>"
    unfolding typed_hello_two_calls by (simp add: v)
  also have "(handleValidation_settle (Inr validated_reply) ?c)\<lparr>input := utf16 ''again''\<rparr>
      = chat busy_page"
  proof -
    have n: "newMessage (awaiting_validation\<lparr>input := utf16 ''hello''\<rparr>) =
       \<lparr>role = user, content = utf16 ''hello'', image = None, agent = None, resultImage = None\<rparr>"
      using typed_hello_chat(4) by (simp add: typed_hello_def)
    have aw: "input awaiting_validation = []" "isRecording awaiting_validation = False"
      "isProcessing awaiting_validation = False" "selectedImage awaiting_validation = None"
      by (simp_all add: awaiting_validation_def)
    show ?thesis
      by (rule Chat.equality)
         (simp_all add: handleValidation_settle_def handleValidation_begin_def
                        handleSendMessage_begin_def typed_hello_def n busy_page_def
                        validated_reply_def aw)
  qed
  finally have "run [SendClicked, ValidationClicked 2 Yes (utf16 ''ok''), Settled 1 ?w,
                     Typed (utf16 ''again'')] typed_hello
      = \<lparr>chat = chat busy_page, pending = [SendPending (utf16 ''hello'') None]\<rparr>" .
  also have "\<dots> = busy_page"
    by (simp add: busy_page_def)
  finally show ?thesis .
qed

lemma again_turn: "trim (utf16 ''again'') = utf16 ''again''"
  by (simp add: trim_def utf16_def isWhiteSpace_def)

text \<open>
  C10 does not hold of the client where it speaks of a turn still being processed. The
  guard reads the flag \<open>isProcessing\<close>, and the \<open>finally\<close> of \<open>handleValidation\<close> clears
  the flag while a chat call is in flight. The run below goes from the first render to the
  page \<open>busy_page\<close>: the call of the turn \<open>hello\<close> is still in flight, the flag is off.
  There \<open>handleSendMessage\<close> does not return: it posts \<open>again\<close> to \<open>/api/chat\<close>, appends
  two entries and empties the input, and a second chat call is in flight.
\<close>

theorem send_during_chat_call:
  "run [ImagePicked (utf16 ''data:image/png;base64,iVBORw''), SendClicked,
        Settled 0 (serving None tumor_reply validated_reply), Typed (utf16 ''hello''),
        SendClicked, ValidationClicked 2 Yes (utf16 ''ok''),
        Settled 1 (serving None hello_reply validated_reply), Typed (utf16 ''again'')]
     Page_initial = busy_page
   \<and> pending busy_page = [SendPending (utf16 ''hello'') None]
   \<and> isProcessing (chat busy_page) = False
   \<and> handleSendMessage (serving None hello_reply validated_reply) (chat busy_page) =
       ((chat busy_page)
          \<lparr>messages := messages (chat busy_page) @
             [\<lparr>role = user, content = utf16 ''again'', image = None, agent = None,
               resultImage = None\<rparr>,
              \<lparr>role = assistant, content = utf16 ''Hello!'', image = None,
               agent = Some (utf16 ''CONVERSATION_AGENT''), resultImage = None\<rparr>],
           input := []\<rparr>,
        [(utf16 ''http://localhost:8000/api/chat'',
          Some \<lparr>method' = Some (utf16 ''POST''),
                headers = [(utf16 ''Content-Type'', utf16 ''application/json'')],
                body = Some (JSON_stringify (JObject
                         [(utf16 ''query'', JString (utf16 ''again'')),
                          (utf16 ''conversation_history'', JArray [])])),
                credentials = Some (utf16 ''include'')\<rparr>)])
   \<and> pending (step SendClicked busy_page) =
       [SendPending (utf16 ''hello'') None, SendPending (utf16 ''again'') None]"
proof -
  let ?w = "serving None hello_reply validated_reply"
  have "run ([ImagePicked (utf16 ''data:image/png;base64,iVBORw''), SendClicked,
              Settled 0 (serving None tumor_reply validated_reply), Typed (utf16 ''hello'')]
             @ [SendClicked, ValidationClicked 2 Yes (utf16 ''ok''), Settled 1 ?w,
                Typed (utf16 ''again'')]) Page_initial = busy_page"
    by (simp only: run_append awaiting_validation_reached busy_page_reached)
  then have reach: "run [ImagePicked (utf16 ''data:image/png;base64,iVBORw''), SendClicked,
        Settled 0 (serving None tumor_reply validated_reply), Typed (utf16 ''hello''),
        SendClicked, ValidationClicked 2 Yes (utf16 ''ok''),
        Settled 1 ?w, Typed (utf16 ''again'')] Page_initial = busy_page"
    by (simp only: append.simps)
  have f: "input (chat busy_page) = utf16 ''again''" "selectedImage (chat busy_page) = None"
    "isProcessing (chat busy_page) = False" "isRecording (chat busy_page) = False"
    "pending busy_page = [SendPending (utf16 ''hello'') None]"
    by (simp_all add: busy_page_def)
  have "utf16 ''again'' \<noteq> []"
    by (simp add: utf16_def)
  then have accepted: "\<not> handleSendMessage_returns (chat busy_page)"
    by (simp add: handleSendMessage_returns_def f again_turn truthy_def)
  have r: "handleSendMessage_request ?w (utf16 ''again'') None =
       (Inr hello_reply,
        [(utf16 ''http://localhost:8000/api/chat'',
          Some \<lparr>method' = Some (utf16 ''POST''),
                headers = [(utf16 ''Content-Type'', utf16 ''application/json'')],
                body = Some (JSON_stringify (JObject
                         [(utf16 ''query'', JString (utf16 ''again'')),
                          (utf16 ''conversation_history'', JArray [])])),
                credentials = Some (utf16 ''include'')\<rparr>)])"
    by (simp add: handleSendMessage_request_def truthy_opt_def sendChatMessage_def again_turn)
       (simp add: serving_def utf16_def)
  have h: "handleSendMessage ?w (chat busy_page) =
       ((chat busy_page)
          \<lparr>messages := messages (chat busy_page) @
             [\<lparr>role = user, content = utf16 ''again'', image = None, agent = None,
               resultImage = None\<rparr>,
              \<lparr>role = assistant, content = utf16 ''Hello!'', image = None,
               agent = Some (utf16 ''CONVERSATION_AGENT''), resultImage = None\<rparr>],
           input := []\<rparr>,
        [(utf16 ''http://localhost:8000/api/chat'',
          Some \<lparr>method' = Some (utf16 ''POST''),
                headers = [(utf16 ''Content-Type'', utf16 ''application/json'')],
                body = Some (JSON_stringify (JObject
                         [(utf16 ''query'', JString (utf16 ''again'')),
                          (utf16 ''conversation_history'', JArray [])])),
                credentials = Some (utf16 ''include'')\<rparr>)])"
  proof -
    have n: "newMessage (chat busy_page) =
       \<lparr>role = user, content = utf16 ''again'', image = None, agent = None, resultImage = None\<rparr>"
      by (simp add: newMessage_def f again_turn truthy_opt_def)
    have "(chat busy_page)
            \<lparr>messages := messages (chat busy_page) @
               [\<lparr>role = user, content = utf16 ''again'', image = None, agent = None,
                 resultImage = None\<rparr>,
                \<lparr>role = assistant, content = utf16 ''Hello!'', image = None,
                 agent = Some (utf16 ''CONVERSATION_AGENT''), resultImage = None\<rparr>],
              input := [], selectedImage := None, isProcessing := False\<rparr>
        = (chat busy_page)
            \<lparr>messages := messages (chat busy_page) @
               [\<lparr>role = user, content = utf16 ''again'', image = None, agent = None,
                 resultImage = None\<rparr>,
                \<lparr>role = assistant, content = utf16 ''Hello!'', image = None,
                 agent = Some (utf16 ''CONVERSATION_AGENT''), resultImage = None\<rparr>],
              input := []\<rparr>"
      by (rule Chat.equality) (simp_all add: f)
    then show ?thesis
      unfolding handleSendMessage_settled [OF accepted] f r
      by (simp add: n hello_reply_def)
  qed
  have p: "pending (step SendClicked busy_page) =
       [SendPending (utf16 ''hello'') None, SendPending (utf16 ''again'') None]"
    using accepted by (simp add: f)
  from reach f(5) f(3) h p show ?thesis by (intro conjI)
qed

text \<open>
  One whole call of a handler is the run of its two pieces with nothing in between.
\<close>

lemma handleSendMessage_as_run:
  assumes "\<not> handleSendMessage_returns (chat p)"
  shows "run [SendClicked, Settled (length (pending p)) w] p
           = \<lparr>chat = fst (handleSendMessage w (chat p)), pending = pending p\<rparr>"
  using assms
  by (simp add: handleSendMessage_def split_beta nth_append)

lemma click_validation_as_run:
  assumes "i < length (messages (chat p))" and "asks_validation (messages (chat p) ! i)"
  shows "run [ValidationClicked i b c, Settled (length (pending p)) w] p
           = \<lparr>chat = fst (click_validation w i b c (chat p)), pending = pending p\<rparr>"
  using assms
  by (simp add: click_validation_asks handleValidation_def split_beta nth_append)

section \<open>Further properties of the client\<close>

text \<open>
  An upload turn: a turn with a selected image that \<open>handleSendMessage\<close> accepts reads the
  image's data
  URL as a blob and then makes one POST to the endpoint \<open>/upload\<close>, at the URL made of the
  API base URL and \<open>/api/upload\<close>: a multipart form with the fields \<open>image\<close>, the blob as
  the file \<open>image.jpg\<close>, and \<open>text\<close>, the trimmed input. The user's message shows the data
  URL as its image.
\<close>

theorem upload_turn_contract:
  assumes "selectedImage st = Some url" and "url \<noteq> []" and "\<not> isProcessing st"
    and "fetch_blob w (url, None) = Inr r" and "payload r = Inr imageFile"
  shows "snd (handleSendMessage w st) =
           [(url, None),
            (API_BASE_URL w @ utf16 ''/api/upload'',
             Some \<lparr>method' = Some (utf16 ''POST''), headers = [],
                   body = Some (FormData
                     [(utf16 ''image'', FileValue \<lparr>bits = imageFile, name = utf16 ''image.jpg''\<rparr>),
                      (utf16 ''text'', StringValue (trim (input st)))]),
                   credentials = Some (utf16 ''include'')\<rparr>)]
         \<and> image (newMessage st) = Some url"
  using assms
  by (simp add: handleSendMessage_def handleSendMessage_returns_def handleSendMessage_request_def
                truthy_opt_def truthy_def split_beta uploadImage_calls newMessage_def)

theorem upload_turn_contract_witness:
  "snd (handleSendMessage (serving None tumor_reply validated_reply)
          (Chat_initial\<lparr>selectedImage := Some (utf16 ''data:image/png;base64,iVBORw'')\<rparr>)) =
     [(utf16 ''data:image/png;base64,iVBORw'', None),
      (utf16 ''http://localhost:8000/api/upload'',
       Some \<lparr>method' = Some (utf16 ''POST''), headers = [],
             body = Some (FormData
               [(utf16 ''image'', FileValue \<lparr>bits = png, name = utf16 ''image.jpg''\<rparr>),
                (utf16 ''text'', StringValue [])]),
             credentials = Some (utf16 ''include'')\<rparr>)]"
proof -
  let ?url = "utf16 ''data:image/png;base64,iVBORw''"
  let ?w = "serving None tumor_reply validated_reply"
  let ?st = "Chat_initial\<lparr>selectedImage := Some ?url\<rparr>"
  have a: "selectedImage ?st = Some ?url" "?url \<noteq> []" "\<not> isProcessing ?st"
    by (simp_all add: Chat_initial_def utf16_def)
  have b: "fetch_blob ?w (?url, None) = Inr \<lparr>ok = True, payload = Inr png\<rparr>"
    "payload \<lparr>ok = True, payload = (Inr png :: error + Blob)\<rparr> = Inr png"
    by (simp_all add: serving_def)
  have t: "trim (input Chat_initial) = []"
    by (simp add: Chat_initial_def trim_def)
  from upload_turn_contract [OF a b] show ?thesis
    by (simp add: t utf16_def)
qed

text \<open>
  The prompt after a validation: an entry tagged \<open>HUMAN_VALIDATED\<close> renders no
  validation prompt, the tag not
  including \<open>HUMAN_VALIDATION\<close>; and the message that was validated keeps its prompt after
  the validation: its buttons can be clicked again.
\<close>

theorem validated_entry_asks_nothing:
  "\<not> asks_validation \<lparr>role = assistant, content = c, image = None,
                        agent = Some (utf16 ''HUMAN_VALIDATED''), resultImage = None\<rparr>
   \<and> (i < length (messages st) \<and> asks_validation (messages st ! i)
      \<longrightarrow> i < length (messages (fst (click_validation w i b comments st)))
        \<and> asks_validation (messages (fst (click_validation w i b comments st)) ! i))"
proof -
  have a: "\<not> asks_validation \<lparr>role = assistant, content = c, image = None,
                        agent = Some (utf16 ''HUMAN_VALIDATED''), resultImage = None\<rparr>"
    by (simp add: asks_validation_def utf16_def)
  have b: "i < length (messages st) \<and> asks_validation (messages st ! i)
      \<longrightarrow> i < length (messages (fst (click_validation w i b comments st)))
        \<and> asks_validation (messages (fst (click_validation w i b comments st)) ! i)"
  proof
    assume h: "i < length (messages st) \<and> asks_validation (messages st ! i)"
    then have "click_validation w i b comments st = handleValidation w (onClick b) comments st"
      by (simp add: click_validation_asks)
    moreover obtain entry where
      "messages (fst (handleValidation w (onClick b) comments st)) = messages st @ [entry]"
      using handleValidation_settle_appends [of "fst (sendValidation w (onClick b) comments)"
                                                 "handleValidation_begin st"]
      by (auto simp: handleValidation_def split_beta begin_messages)
    ultimately show "i < length (messages (fst (click_validation w i b comments st)))
        \<and> asks_validation (messages (fst (click_validation w i b comments st)) ! i)"
      using h by (simp add: nth_append)
  qed
  from a b show ?thesis by blast
qed

theorem validated_entry_asks_nothing_witness:
  "2 < length (messages (fst (click_validation offline 2 Yes (utf16 ''ok'') awaiting_validation)))
   \<and> asks_validation
        (messages (fst (click_validation offline 2 Yes (utf16 ''ok'') awaiting_validation)) ! 2)"
  using validated_entry_asks_nothing [of _ 2 awaiting_validation offline Yes "utf16 ''ok''"]
        asks_awaiting
  by blast

end
